theory Spec2Isabelle
  imports Complex_Main
begin

section \<open>Data model of the garrison aggregate\<close>

text \<open>
  The embedding follows \<^verbatim>\<open>src/repos/dynamic/garrison/garrison.repo.ts\<close>.
  A JavaScript \<^verbatim>\<open>Date\<close> is its \<^verbatim>\<open>getTime()\<close> value, an integer number of
  milliseconds; an \<^verbatim>\<open>ObjectId\<close> is a natural number; a JavaScript \<^verbatim>\<open>number\<close>
  that holds a resource amount, a cost or a duration is an exact rational (the rounding of
  IEEE doubles is not modelled), one that counts units or workers is an integer.
  An optional field is an \<open>option\<close>.
\<close>

type_synonym ObjectId = nat
type_synonym Date = int

datatype error = ErrorHandler nat | TypeError

datatype IBuildingImprovementType = Upgrade | Extension

record IImprovement =
  imp_type :: IBuildingImprovementType
  imp_level :: nat

record IOperatedConstruction =
  c_id :: ObjectId
  beginDate :: Date
  c_endDate :: Date
  workforce :: int
  improvement :: "IImprovement option"

record IGarrisonBuilding =
  b_id :: "ObjectId option"
  b_code :: string
  constructions :: "IOperatedConstruction list"

datatype IUnitAssignmentType = Instantiation | Construction | Harvest

record IUnitAssignment =
  a_id :: "ObjectId option"
  buildingId :: "ObjectId option"
  a_quantity :: int
  a_type :: IUnitAssignmentType
  a_endDate :: Date

record IGarrisonUnit =
  u_code :: string
  u_quantity :: int
  assignments :: "IUnitAssignment list"

record IGarrisonResources =
  gold :: rat
  wood :: rat
  food :: rat
  plot :: rat
  goldLastUpdate :: "Date option"
  woodLastUpdate :: "Date option"

record IGarrison =
  g_id :: ObjectId
  characterId :: ObjectId
  g_name :: string
  zone :: string
  resources :: IGarrisonResources
  buildings :: "IGarrisonBuilding list"
  units :: "IGarrisonUnit list"

subsection \<open>Static catalog entries\<close>

datatype resourceKind = Gold | Wood | Plot | Food

record IHarvest =
  h_resource :: resourceKind
  h_amount :: rat
  maxWorkforce :: "int option"

record IBuildingCost =
  cost_gold :: rat
  cost_wood :: rat
  cost_plot :: rat

record IRequiredBuilding =
  rb_code :: string
  upgradeLevel :: "nat option"
  rb_level :: "nat option"

record IUpgrade =
  up_level :: nat
  up_requiredEntities :: "IRequiredBuilding list option"

record IExtension =
  ext_requiredEntities :: "IRequiredBuilding list option"
  maxLevel :: "nat option"

record IBuilding =
  cost :: IBuildingCost
  minWorkforce :: int
  duration :: rat
  requiredEntities :: "IRequiredBuilding list option"
  upgrades :: "IUpgrade list option"
  extension :: "IExtension option"
  harvest :: "IHarvest option"

record IUnitCost =
  ucost_gold :: rat
  ucost_wood :: rat
  ucost_food :: rat

record IUnit =
  u_cost :: IUnitCost
  u_duration :: rat
  u_requiredEntities :: "IRequiredBuilding list option"

text \<open>
  The catalog repositories are read-only lookups by code; \<open>None\<close> is the \<^verbatim>\<open>null\<close> that
  \<^verbatim>\<open>findByCode\<close> gives for an unknown code. The \<^verbatim>\<open>code\<close> of a catalog entry is
  the key it was found by, so the entries carry no field for it.
\<close>

type_synonym BuildingRepository = "string \<Rightarrow> IBuilding option"
type_synonym UnitRepository = "string \<Rightarrow> IUnit option"

text \<open>
  The collaborators of the repository class: the two catalogs and the tunable factors of
  \<^verbatim>\<open>_gH.getFactor\<close>, whose values are not part of the sources.
\<close>

record Collaborators =
  buildingRepo :: BuildingRepository
  unitRepo :: UnitRepository
  getFactor :: "string \<Rightarrow> rat"

subsection \<open>Dynamic field access \<^verbatim>\<open>garrison.resources[harvest.resource]\<close>\<close>

fun getResource :: "resourceKind \<Rightarrow> IGarrisonResources \<Rightarrow> rat" where
  "getResource Gold rs = gold rs"
| "getResource Wood rs = wood rs"
| "getResource Plot rs = plot rs"
| "getResource Food rs = food rs"

fun setResource :: "resourceKind \<Rightarrow> rat \<Rightarrow> IGarrisonResources \<Rightarrow> IGarrisonResources" where
  "setResource Gold v rs = rs\<lparr>gold := v\<rparr>"
| "setResource Wood v rs = rs\<lparr>wood := v\<rparr>"
| "setResource Plot v rs = rs\<lparr>plot := v\<rparr>"
| "setResource Food v rs = rs\<lparr>food := v\<rparr>"

section \<open>The accrual engine: \<^verbatim>\<open>updateResources\<close>\<close>

text \<open>\<^verbatim>\<open>building.constructions.some(c => c.endDate.getTime() > now.getTime())\<close>\<close>

definition unavailable :: "Date \<Rightarrow> IGarrisonBuilding \<Rightarrow> bool" where
  "unavailable now b = list_ex (\<lambda>c. c_endDate c > now) (constructions b)"

text \<open>
  The quantity of the first assignment of the \<^verbatim>\<open>'peasant'\<close> unit that has type
  \<^verbatim>\<open>'harvest'\<close> and the building's id; \<open>None\<close> is \<^verbatim>\<open>undefined\<close>.
\<close>

definition harvestMatch :: "IGarrisonBuilding \<Rightarrow> IUnitAssignment \<Rightarrow> bool" where
  "harvestMatch b a =
     (a_type a = Harvest \<and> buildingId a \<noteq> None \<and> b_id b \<noteq> None \<and> buildingId a = b_id b)"

definition assignedWorkers :: "IGarrisonUnit list \<Rightarrow> IGarrisonBuilding \<Rightarrow> int option" where
  "assignedWorkers us b =
     (case find (\<lambda>u. u_code u = ''peasant'') us of
        None \<Rightarrow> None
      | Some u \<Rightarrow> map_option a_quantity (find (harvestMatch b) (assignments u)))"

text \<open>
  \<^verbatim>\<open>Math.floor((amount * elapsedMinutes) * assignedWorkers)\<close> with
  \<^verbatim>\<open>elapsedMinutes = (now - lastUpdate) / 1000 / 60\<close>.
\<close>

definition gained :: "rat \<Rightarrow> Date \<Rightarrow> Date \<Rightarrow> int \<Rightarrow> rat" where
  "gained amount now t w =
     of_int \<lfloor>(amount * (of_int (now - t) / 1000 / 60)) * of_int w\<rfloor>"

text \<open>
  One iteration of the loop over \<^verbatim>\<open>garrison.instances.buildings\<close>. The loop only
  replaces \<^verbatim>\<open>garrison.resources\<close>, so an iteration maps resources to resources;
  every \<^verbatim>\<open>continue\<close> returns them unchanged. Reading \<^verbatim>\<open>.harvest\<close> of a building
  the catalog does not know throws.
\<close>

definition updateBuilding ::
  "Date \<Rightarrow> BuildingRepository \<Rightarrow> IGarrisonUnit list \<Rightarrow> IGarrisonResources \<Rightarrow>
   IGarrisonBuilding \<Rightarrow> error + IGarrisonResources" where
  "updateBuilding now repo us rs b =
     (case repo (b_code b) of
        None \<Rightarrow> Inl TypeError
      | Some matchStatics \<Rightarrow>
        (case harvest matchStatics of
           None \<Rightarrow> Inr rs
         | Some h \<Rightarrow>
           if unavailable now b then Inr rs
           else
             (case assignedWorkers us b of
                None \<Rightarrow> Inr rs
              | Some w \<Rightarrow>
                if w = 0 then Inr rs
                else if b_code b = ''goldmine'' then
                  (case goldLastUpdate rs of
                     None \<Rightarrow> Inr rs
                   | Some t \<Rightarrow>
                     if now - t = 0 then Inr rs
                     else Inr ((setResource (h_resource h)
                                 (getResource (h_resource h) rs + gained (h_amount h) now t w) rs)
                               \<lparr>goldLastUpdate := Some now\<rparr>))
                else if b_code b = ''sawmill'' then
                  (case woodLastUpdate rs of
                     None \<Rightarrow> Inr rs
                   | Some t \<Rightarrow>
                     if now - t = 0 then Inr rs
                     else Inr ((setResource (h_resource h)
                                 (getResource (h_resource h) rs + gained (h_amount h) now t w) rs)
                               \<lparr>woodLastUpdate := Some now\<rparr>))
                else Inr rs)))"

fun updateLoop ::
  "Date \<Rightarrow> BuildingRepository \<Rightarrow> IGarrisonUnit list \<Rightarrow> IGarrisonBuilding list \<Rightarrow>
   IGarrisonResources \<Rightarrow> error + IGarrisonResources" where
  "updateLoop now repo us [] rs = Inr rs"
| "updateLoop now repo us (b # bs) rs =
     (case updateBuilding now repo us rs b of
        Inl e \<Rightarrow> Inl e
      | Inr rs' \<Rightarrow> updateLoop now repo us bs rs')"

text \<open>
  The resources the in-memory document is left with when the loop throws: those of the
  iterations that ran before.
\<close>

fun updatePartial ::
  "Date \<Rightarrow> BuildingRepository \<Rightarrow> IGarrisonUnit list \<Rightarrow> IGarrisonBuilding list \<Rightarrow>
   IGarrisonResources \<Rightarrow> IGarrisonResources" where
  "updatePartial now repo us [] rs = rs"
| "updatePartial now repo us (b # bs) rs =
     (case updateBuilding now repo us rs b of
        Inl e \<Rightarrow> rs
      | Inr rs' \<Rightarrow> updatePartial now repo us bs rs')"

definition updateResources ::
  "Date \<Rightarrow> BuildingRepository \<Rightarrow> IGarrison \<Rightarrow> error + IGarrison" where
  "updateResources now repo g =
     (case updateLoop now repo (units g) (buildings g) (resources g) of
        Inl e \<Rightarrow> Inl e
      | Inr rs \<Rightarrow> Inr (g\<lparr>resources := rs\<rparr>))"


section \<open>JavaScript primitives\<close>

text \<open>\<^verbatim>\<open>Array.prototype.findIndex\<close>: the index of the first match, \<open>-1\<close> when there is none.\<close>

fun findIndex :: "('a \<Rightarrow> bool) \<Rightarrow> 'a list \<Rightarrow> int" where
  "findIndex p [] = - 1"
| "findIndex p (x # xs) =
     (if p x then 0 else (let i = findIndex p xs in if i < 0 then - 1 else i + 1))"

text \<open>
  \<^verbatim>\<open>xs.splice(start, 1)\<close>: a negative \<open>start\<close> counts from the end of the array
  (\<open>-1\<close> is the last element), and a start past either end is clamped.
\<close>

definition splice1 :: "int \<Rightarrow> 'a list \<Rightarrow> 'a list" where
  "splice1 start xs =
     (let n = int (length xs);
          k = nat (if start < 0 then max (n + start) 0 else min start n)
      in take k xs @ drop (Suc k) xs)"

text \<open>\<^verbatim>\<open>xs[i]\<close>, \<^verbatim>\<open>undefined\<close> out of range.\<close>

definition elemAt :: "'a list \<Rightarrow> int \<Rightarrow> 'a option" where
  "elemAt xs i = (if 0 \<le> i \<and> i < int (length xs) then Some (xs ! nat i) else None)"

text \<open>\<^verbatim>\<open>payload.quantity || 1\<close>: an absent or zero quantity is 1.\<close>

definition orOne :: "int option \<Rightarrow> int" where
  "orOne q = (case q of None \<Rightarrow> 1 | Some n \<Rightarrow> if n = 0 then 1 else n)"

definition Math_round :: "rat \<Rightarrow> rat" where
  "Math_round x = of_int \<lfloor>x + 1 / 2\<rfloor>"

definition Math_floor :: "rat \<Rightarrow> rat" where
  "Math_floor x = of_int \<lfloor>x\<rfloor>"

section \<open>Helpers of the repository that are not part of the sources\<close>

text \<open>
  Modelled from the spec: \<^verbatim>\<open>_h.addTime(date, ms)\<close> (utils/helper.utils) is missing from
  the sources. The spec describes an end date as the start date plus the duration; a
  \<^verbatim>\<open>Date\<close> holds whole milliseconds.
\<close>

definition addTime :: "Date \<Rightarrow> rat \<Rightarrow> Date" where
  "addTime d ms = d + \<lfloor>ms\<rfloor>"

text \<open>
  Modelled from the spec: \<^verbatim>\<open>_gH.findBuilding\<close>, \<^verbatim>\<open>_gH.findUnit\<close> and
  \<^verbatim>\<open>_gH.findBuildingConstruction\<close> (helper.utils.garrison.repo) are missing from the
  sources. Each returns the element and its index, and fails with \<open>NotFound\<close> (404) when
  the garrison has no such element.
\<close>

definition findBuilding :: "IGarrison \<Rightarrow> ObjectId \<Rightarrow> error + (IGarrisonBuilding \<times> nat)" where
  "findBuilding g bid =
     (let i = findIndex (\<lambda>b. b_id b = Some bid) (buildings g)
      in if i < 0 then Inl (ErrorHandler 404) else Inr (buildings g ! nat i, nat i))"

definition findUnit :: "IGarrison \<Rightarrow> string \<Rightarrow> error + (IGarrisonUnit \<times> nat)" where
  "findUnit g code =
     (let i = findIndex (\<lambda>u. u_code u = code) (units g)
      in if i < 0 then Inl (ErrorHandler 404) else Inr (units g ! nat i, nat i))"

definition findBuildingConstruction :: "IGarrisonBuilding \<Rightarrow> ObjectId \<Rightarrow> error + nat" where
  "findBuildingConstruction b cid =
     (let i = findIndex (\<lambda>c. c_id c = cid) (constructions b)
      in if i < 0 then Inl (ErrorHandler 404) else Inr (nat i))"

section \<open>Checks written in-line in the repository\<close>

text \<open>
  The requirement check of \<^verbatim>\<open>addUnit\<close> (the callback of \<^verbatim>\<open>.some\<close>): \<open>True\<close> when
  the required building is not fulfilled.
\<close>

definition upgradeMissing :: "Date \<Rightarrow> IGarrisonBuilding \<Rightarrow> nat \<Rightarrow> bool" where
  "upgradeMissing now existing ul =
     (case find (\<lambda>c. case improvement c of None \<Rightarrow> False | Some i \<Rightarrow> ul \<le> imp_level i)
                (constructions existing) of
        None \<Rightarrow> True
      | Some upgraded \<Rightarrow> c_endDate upgraded > now)"

definition instantiating :: "Date \<Rightarrow> IGarrisonBuilding \<Rightarrow> bool" where
  "instantiating now existing =
     list_ex (\<lambda>c. improvement c = None \<and> c_endDate c > now) (constructions existing)"

definition unfulfilledRequirement ::
  "Date \<Rightarrow> IGarrisonBuilding list \<Rightarrow> IRequiredBuilding \<Rightarrow> bool" where
  "unfulfilledRequirement now bs b =
     (case find (\<lambda>gB. b_code gB = rb_code b) bs of
        None \<Rightarrow> True
      | Some existing \<Rightarrow>
          (case upgradeLevel b of
             None \<Rightarrow> False
           | Some ul \<Rightarrow> ul \<noteq> 0 \<and> upgradeMissing now existing ul)
          \<or> instantiating now existing)"

text \<open>The requirement check of \<^verbatim>\<open>extendBuilding\<close>, for the extension level aimed at.\<close>

definition unfulfilledExtensionRequirement ::
  "Date \<Rightarrow> IGarrisonBuilding list \<Rightarrow> nat \<Rightarrow> IRequiredBuilding \<Rightarrow> bool" where
  "unfulfilledExtensionRequirement now bs nextLevel b =
     (case find (\<lambda>gB. b_code gB = rb_code b) bs of
        None \<Rightarrow> True
      | Some existing \<Rightarrow>
          (case upgradeLevel b of
             None \<Rightarrow> False
           | Some ul \<Rightarrow> ul \<noteq> 0 \<and> rb_level b = Some nextLevel \<and> upgradeMissing now existing ul)
          \<or> instantiating now existing)"

text \<open>
  \<^verbatim>\<open>assignments.filter(a => a.endDate > now).map(a => a.quantity).reduce(+, 0)\<close>, and the
  idle availability \<^verbatim>\<open>quantity - unavailable\<close> that the workforce checks compare with.
\<close>

definition unavailableUnits :: "Date \<Rightarrow> IGarrisonUnit \<Rightarrow> int" where
  "unavailableUnits now u =
     sum_list (map a_quantity (filter (\<lambda>a. a_endDate a > now) (assignments u)))"

definition idle :: "Date \<Rightarrow> IGarrisonUnit \<Rightarrow> int" where
  "idle now u = u_quantity u - unavailableUnits now u"

text \<open>
  The highest level among the improvements of one type, 0 when there is none
  (\<^verbatim>\<open>.filter(...).map(level).reduce((prev, next) => next > prev ? next : prev, 0)\<close>).
\<close>

definition currentLevel :: "IBuildingImprovementType \<Rightarrow> IOperatedConstruction list \<Rightarrow> nat" where
  "currentLevel ty cs =
     foldl (\<lambda>prev next. if next > prev then next else prev) 0
       (List.map_filter
          (\<lambda>c. case improvement c of
                 None \<Rightarrow> None
               | Some i \<Rightarrow> if imp_type i = ty then Some (imp_level i) else None) cs)"

text \<open>\<^verbatim>\<open>harvest && !harvest.maxWorkforce\<close>: a "gift" harvester.\<close>

definition isGift :: "IHarvest \<Rightarrow> bool" where
  "isGift h = (case maxWorkforce h of None \<Rightarrow> True | Some m \<Rightarrow> m = 0)"

section \<open>Storage\<close>

text \<open>
  The garrison collection is the list of its documents. Every operation loads the
  document (\<^verbatim>\<open>findById\<close>, strict: 404 when missing), works on it in memory, and saves
  it as its last step; an exception before \<^verbatim>\<open>save\<close> leaves the collection as it was.
\<close>

type_synonym GarrisonModel = "IGarrison list"

definition findById :: "GarrisonModel \<Rightarrow> ObjectId \<Rightarrow> error + IGarrison" where
  "findById db gid =
     (case find (\<lambda>g. g_id g = gid) db of None \<Rightarrow> Inl (ErrorHandler 404) | Some g \<Rightarrow> Inr g)"

definition save :: "IGarrison \<Rightarrow> GarrisonModel \<Rightarrow> GarrisonModel" where
  "save g db = map (\<lambda>d. if g_id d = g_id g then g else d) db"

definition loadAndSave ::
  "GarrisonModel \<Rightarrow> ObjectId \<Rightarrow> (IGarrison \<Rightarrow> error + IGarrison) \<Rightarrow>
   (error + IGarrison) \<times> GarrisonModel" where
  "loadAndSave db gid body =
     (case findById db gid of
        Inl e \<Rightarrow> (Inl e, db)
      | Inr g \<Rightarrow>
        (case body g of
           Inl e \<Rightarrow> (Inl e, db)
         | Inr g' \<Rightarrow> (findById (save g' db) (g_id g'), save g' db)))"


section \<open>\<^verbatim>\<open>cancelBuildingConstruction\<close>\<close>

text \<open>
  The refund of lines 259 to 265 of \<^verbatim>\<open>garrison.repo.ts\<close>: the three assignments of
  the improvement branch all write \<^verbatim>\<open>gold\<close>.
\<close>

definition refund :: "(string \<Rightarrow> rat) \<Rightarrow> IBuildingCost \<Rightarrow> IImprovement option \<Rightarrow> rat \<times> rat \<times> rat" where
  "refund factor c imp =
     (let gold = cost_gold c; wood = cost_wood c; plot = cost_plot c
      in case imp of
           None \<Rightarrow> (gold, wood, plot)
         | Some i \<Rightarrow>
             (let gold = gold * factor ''default'' ^ imp_level i;
                  gold = wood * factor ''default'' ^ imp_level i;
                  gold = plot * factor ''decreased'' ^ imp_level i
              in (gold, wood, plot)))"

text \<open>
  The same lines in the second copy of the repository file (\<^verbatim>\<open>src/unnamed/part_002\<close>),
  which differs from the first in these three assignments only.
\<close>

definition refund_part002 ::
  "(string \<Rightarrow> rat) \<Rightarrow> IBuildingCost \<Rightarrow> IImprovement option \<Rightarrow> rat \<times> rat \<times> rat" where
  "refund_part002 factor c imp =
     (let gold = cost_gold c; wood = cost_wood c; plot = cost_plot c
      in case imp of
           None \<Rightarrow> (gold, wood, plot)
         | Some i \<Rightarrow>
             (let gold = gold * factor ''default'' ^ imp_level i;
                  wood = wood * factor ''default'' ^ imp_level i;
                  plot = plot * factor ''decreased'' ^ imp_level i
              in (gold, wood, plot)))"

text \<open>\<^verbatim>\<open>delete garrison.resources[`${harvest.resource}LastUpdate`]\<close>\<close>

fun deleteLastUpdate :: "resourceKind \<Rightarrow> IGarrisonResources \<Rightarrow> IGarrisonResources" where
  "deleteLastUpdate Gold rs = rs\<lparr>goldLastUpdate := None\<rparr>"
| "deleteLastUpdate Wood rs = rs\<lparr>woodLastUpdate := None\<rparr>"
| "deleteLastUpdate Plot rs = rs"
| "deleteLastUpdate Food rs = rs"

text \<open>
  The harvest branch. \<^verbatim>\<open>typeof harvest.maxWorkforce\<close> is a string, so of the two cases of
  the \<^verbatim>\<open>switch\<close> only \<^verbatim>\<open>'number'\<close> can match; \<^verbatim>\<open>case undefined\<close> never does.
\<close>

definition cancelHarvest ::
  "IHarvest option \<Rightarrow> string \<Rightarrow> IGarrisonBuilding list \<Rightarrow> IGarrisonResources \<Rightarrow> IGarrisonResources" where
  "cancelHarvest hv code bs rs =
     (case hv of
        None \<Rightarrow> rs
      | Some h \<Rightarrow>
        (case maxWorkforce h of
           Some m \<Rightarrow> if list_ex (\<lambda>b. b_code b = code) bs then deleteLastUpdate (h_resource h) rs else rs
         | None \<Rightarrow> rs))"

text \<open>
  The peasant assignment to release: the first whose end date is that of
  \<^verbatim>\<open>building.constructions[cIndex]\<close>, read after the construction list was spliced.
\<close>

definition releaseIndex :: "IOperatedConstruction list \<Rightarrow> nat \<Rightarrow> IUnitAssignment list \<Rightarrow> int" where
  "releaseIndex cs cIndex as =
     findIndex (\<lambda>a. case elemAt cs (int cIndex) of
                      None \<Rightarrow> False
                    | Some c \<Rightarrow> a_endDate a = c_endDate c) as"

text \<open>
  The body of the method on the loaded document, for either copy of the refund lines.
\<close>

definition cancelBody ::
  "(IBuildingCost \<Rightarrow> IImprovement option \<Rightarrow> rat \<times> rat \<times> rat) \<Rightarrow> BuildingRepository \<Rightarrow>
   ObjectId \<Rightarrow> ObjectId \<Rightarrow> IGarrison \<Rightarrow> error + IGarrison" where
  "cancelBody refundOf repo bid cid g =
     (case findBuilding g bid of
        Inl e \<Rightarrow> Inl e
      | Inr (building, bIndex) \<Rightarrow>
        (case findBuildingConstruction building cid of
           Inl e \<Rightarrow> Inl e
         | Inr cIndex \<Rightarrow>
           (case repo (b_code building) of
              None \<Rightarrow> Inl TypeError
            | Some staticBuilding \<Rightarrow>
              (let imp = improvement (constructions building ! cIndex);
                   (gold', wood', plot') = refundOf (cost staticBuilding) imp;
                   cs' = (case imp of
                            Some i \<Rightarrow> splice1 (int cIndex) (constructions building)
                          | None \<Rightarrow> constructions building);
                   bs' = (case imp of
                            Some i \<Rightarrow> (buildings g)[bIndex := building\<lparr>constructions := cs'\<rparr>]
                          | None \<Rightarrow> splice1 (int bIndex) (buildings g));
                   rs1 = (resources g)
                           \<lparr>gold := gold (resources g) + gold',
                            wood := wood (resources g) + wood',
                            plot := plot (resources g) + plot'\<rparr>;
                   rs2 = cancelHarvest (harvest staticBuilding) (b_code building) bs' rs1
               in case findUnit g ''peasant'' of
                    Inl e \<Rightarrow> Inl e
                  | Inr (peasants, pIndex) \<Rightarrow>
                      Inr (g\<lparr>resources := rs2,
                             buildings := bs',
                             units := (units g)
                               [pIndex := peasants
                                  \<lparr>assignments :=
                                     splice1 (releaseIndex cs' cIndex (assignments peasants))
                                       (assignments peasants)\<rparr>]\<rparr>)))))"

definition cancelBuildingConstruction ::
  "Collaborators \<Rightarrow> ObjectId \<Rightarrow> ObjectId \<Rightarrow> ObjectId \<Rightarrow> GarrisonModel \<Rightarrow>
   (error + IGarrison) \<times> GarrisonModel" where
  "cancelBuildingConstruction env gid bid cid db =
     loadAndSave db gid (cancelBody (refund (getFactor env)) (buildingRepo env) bid cid)"

definition cancelBuildingConstruction_part002 ::
  "Collaborators \<Rightarrow> ObjectId \<Rightarrow> ObjectId \<Rightarrow> ObjectId \<Rightarrow> GarrisonModel \<Rightarrow>
   (error + IGarrison) \<times> GarrisonModel" where
  "cancelBuildingConstruction_part002 env gid bid cid db =
     loadAndSave db gid (cancelBody (refund_part002 (getFactor env)) (buildingRepo env) bid cid)"

section \<open>\<^verbatim>\<open>extendBuilding\<close>\<close>

text \<open>
  The method as written in-line in \<^verbatim>\<open>garrison.repo.ts\<close>. The fresh ids of the
  construction and of the assignment are arguments. The new construction is appended to
  every building of the garrison that has the target's code.
\<close>

definition extendBody ::
  "BuildingRepository \<Rightarrow> Date \<Rightarrow> ObjectId \<Rightarrow> ObjectId \<Rightarrow> ObjectId \<Rightarrow> int \<Rightarrow>
   IGarrison \<Rightarrow> error + IGarrison" where
  "extendBody repo now newCid newAid bid wforce g =
     (case findBuilding g bid of
        Inl e \<Rightarrow> Inl e
      | Inr (garrBuilding, bIndex) \<Rightarrow>
        (case repo (b_code garrBuilding) of
           None \<Rightarrow> Inl (ErrorHandler 404)
         | Some building \<Rightarrow>
           (case extension building of
              None \<Rightarrow> Inl (ErrorHandler 412)
            | Some ext \<Rightarrow>
              if unavailable now garrBuilding then Inl (ErrorHandler 412)
              else
                (let level = currentLevel Extension (constructions garrBuilding) in
                 if (case maxLevel ext of None \<Rightarrow> False | Some m \<Rightarrow> level + 1 > m)
                 then Inl (ErrorHandler 400)
                 else if (case ext_requiredEntities ext of
                            None \<Rightarrow> False
                          | Some rqs \<Rightarrow>
                              list_ex (unfulfilledExtensionRequirement now (buildings g) (level + 1)) rqs)
                 then Inl (ErrorHandler 412)
                 else
                   (let scaled = Math_round (duration building * (13 / 10) ^ (level + 1));
                        minW = minWorkforce building * 2 ^ (level + 1)
                    in case findUnit g ''peasant'' of
                         Inl e \<Rightarrow> Inl e
                       | Inr (peasants, pIndex) \<Rightarrow>
                           if wforce > u_quantity peasants then Inl (ErrorHandler 400)
                           else if wforce > u_quantity peasants - unavailableUnits now peasants
                           then Inl (ErrorHandler 412)
                           else if wforce < minW then Inl (ErrorHandler 400)
                           else if wforce > minW * 2 then Inl (ErrorHandler 400)
                           else
                             (let newDuration = scaled * power_int (97 / 100) (wforce - minW);
                                  constructed =
                                    \<lparr>c_id = newCid, beginDate = now,
                                     c_endDate = addTime now (newDuration * 1000),
                                     workforce = wforce,
                                     improvement =
                                       Some \<lparr>imp_type = Extension, imp_level = level + 1\<rparr>\<rparr>;
                                  bs' = map (\<lambda>b. if b_code b = b_code garrBuilding
                                                  then b\<lparr>constructions := constructions b @ [constructed]\<rparr>
                                                  else b) (buildings g);
                                  goldCost = Math_round (cost_gold (cost building) * (16 / 10) ^ (level + 1));
                                  woodCost = Math_round (cost_wood (cost building) * (16 / 10) ^ (level + 1));
                                  plotCost = Math_round ((cost_plot (cost building) / 2) * (15 / 10) ^ (level + 1));
                                  rs = resources g
                              in if gold rs - goldCost < 0 \<or> wood rs - woodCost < 0
                                    \<or> plot rs - plotCost < 0
                                 then Inl (ErrorHandler 412)
                                 else
                                   (let rs1 = rs\<lparr>gold := gold rs - goldCost,
                                                  wood := wood rs - woodCost,
                                                  plot := plot rs - plotCost\<rparr>;
                                        rs2 = (case harvest building of
                                                 None \<Rightarrow> rs1
                                               | Some h \<Rightarrow>
                                                   if isGift h
                                                   then setResource (h_resource h)
                                                          (getResource (h_resource h) rs1
                                                           + Math_floor (h_amount h * (12 / 10) ^ (level + 1)))
                                                          rs1
                                                   else rs1)
                                    in Inr (g\<lparr>resources := rs2,
                                              buildings := bs',
                                              units := (units g)
                                                [pIndex := peasants
                                                   \<lparr>assignments := assignments peasants @
                                                      [\<lparr>a_id = Some newAid,
                                                        buildingId = b_id garrBuilding,
                                                        a_quantity = wforce,
                                                        a_type = Construction,
                                                        a_endDate = addTime now (newDuration * 1000)\<rparr>]\<rparr>]\<rparr>))))))))"

definition extendBuilding ::
  "Collaborators \<Rightarrow> Date \<Rightarrow> ObjectId \<Rightarrow> ObjectId \<Rightarrow> ObjectId \<Rightarrow> ObjectId \<Rightarrow> int \<Rightarrow>
   GarrisonModel \<Rightarrow> (error + IGarrison) \<times> GarrisonModel" where
  "extendBuilding env now newCid newAid gid bid wforce db =
     loadAndSave db gid (extendBody (buildingRepo env) now newCid newAid bid wforce)"


section \<open>\<^verbatim>\<open>addUnit\<close>\<close>

text \<open>
  The training loop: iteration \<open>i\<close> pushes an assignment of quantity 1 that ends one
  unit duration after \<^verbatim>\<open>assignments[i - 1]?.endDate || now\<close>.
\<close>

fun trainingAssignments ::
  "nat \<Rightarrow> Date \<Rightarrow> rat \<Rightarrow> IUnitAssignment list \<Rightarrow> IUnitAssignment list" where
  "trainingAssignments 0 now d acc = acc"
| "trainingAssignments (Suc n) now d acc =
     trainingAssignments n now d
       (acc @ [\<lparr>a_id = None, buildingId = None, a_quantity = 1, a_type = Instantiation,
                a_endDate = addTime (case elemAt acc (int (length acc) - 1) of
                                       None \<Rightarrow> now
                                     | Some a \<Rightarrow> a_endDate a) (d * 1000)\<rparr>])"

text \<open>
  Lines 645 to 664: the new cohort is appended when the garrison has no unit of its code,
  and merged into the unit of that code otherwise.
\<close>

definition enlist :: "IGarrisonUnit \<Rightarrow> IGarrison \<Rightarrow> IGarrison" where
  "enlist newUnit g =
     (let index = findIndex (\<lambda>u. u_code u = u_code newUnit) (units g)
      in if index < 0 then g\<lparr>units := units g @ [newUnit]\<rparr>
         else g\<lparr>units := (units g)
                [nat index :=
                   \<lparr>u_code = u_code (units g ! nat index),
                    u_quantity = u_quantity (units g ! nat index) + u_quantity newUnit,
                    assignments = assignments (units g ! nat index) @ assignments newUnit\<rparr>]\<rparr>)"

text \<open>
  The method on the loaded document. The result is the in-memory document as the method
  leaves it, and the exception it throws, if any: the unit list and the resources of the
  document are assigned before the resources are checked. \<open>now\<close> is the clock reading of
  the method, \<open>nowU\<close> the later one of \<^verbatim>\<open>updateResources\<close>.
\<close>

definition addUnit_run ::
  "Collaborators \<Rightarrow> Date \<Rightarrow> Date \<Rightarrow> string \<Rightarrow> int option \<Rightarrow> IGarrison \<Rightarrow>
   IGarrison \<times> error option" where
  "addUnit_run env now nowU code quantity g =
     (case unitRepo env code of
        None \<Rightarrow> (g, Some (ErrorHandler 404))
      | Some unit \<Rightarrow>
        if (case u_requiredEntities unit of
              None \<Rightarrow> False
            | Some rqs \<Rightarrow> list_ex (unfulfilledRequirement now (buildings g)) rqs)
        then (g, Some (ErrorHandler 412))
        else
          (let newUnit = \<lparr>u_code = code, u_quantity = orOne quantity,
                           assignments =
                             trainingAssignments (nat (orOne quantity)) now (u_duration unit) []\<rparr>;
               g1 = enlist newUnit g
           in case updateResources nowU (buildingRepo env) g1 of
                Inl e \<Rightarrow>
                  (g1\<lparr>resources := updatePartial nowU (buildingRepo env) (units g1)
                                      (buildings g1) (resources g1)\<rparr>, Some e)
              | Inr g2 \<Rightarrow>
                  (let goldCost = ucost_gold (u_cost unit) * of_int (u_quantity newUnit);
                       woodCost = ucost_wood (u_cost unit) * of_int (u_quantity newUnit);
                       foodCost = ucost_food (u_cost unit) * of_int (u_quantity newUnit);
                       rs = resources g2
                   in if gold rs - goldCost < 0 \<or> wood rs - woodCost < 0
                         \<or> food rs - foodCost < 0
                      then (g2, Some (ErrorHandler 412))
                      else (g2\<lparr>resources := rs\<lparr>gold := gold rs - goldCost,
                                                 wood := wood rs - woodCost,
                                                 food := food rs - foodCost\<rparr>\<rparr>, None))))"

definition addUnitBody ::
  "Collaborators \<Rightarrow> Date \<Rightarrow> Date \<Rightarrow> string \<Rightarrow> int option \<Rightarrow> IGarrison \<Rightarrow>
   error + IGarrison" where
  "addUnitBody env now nowU code quantity g =
     (case addUnit_run env now nowU code quantity g of
        (m, None) \<Rightarrow> Inr m
      | (m, Some e) \<Rightarrow> Inl e)"

definition addUnit ::
  "Collaborators \<Rightarrow> Date \<Rightarrow> Date \<Rightarrow> ObjectId \<Rightarrow> string \<Rightarrow> int option \<Rightarrow> GarrisonModel \<Rightarrow>
   (error + IGarrison) \<times> GarrisonModel" where
  "addUnit env now nowU gid code quantity db =
     loadAndSave db gid (addUnitBody env now nowU code quantity)"

section \<open>\<^verbatim>\<open>assignUnit\<close> and \<^verbatim>\<open>unassignUnit\<close>\<close>

text \<open>
  Both methods bring the resources up to date first when the unit is the peasant:
  \<^verbatim>\<open>if (unit.code === 'peasant') garrison.resources = (await this.updateResources(garrison)).resources\<close>.
\<close>

definition refreshed :: "Collaborators \<Rightarrow> Date \<Rightarrow> string \<Rightarrow> IGarrison \<Rightarrow> error + IGarrison" where
  "refreshed env nowU code g =
     (if code = ''peasant'' then updateResources nowU (buildingRepo env) g else Inr g)"

text \<open>
  The assignment loop of \<^verbatim>\<open>assignUnit\<close>; \<^verbatim>\<open>new Date('2099-01-01')\<close> is
  4070908800000 ms. The hexadecimal strings of two absent ids are both \<^verbatim>\<open>undefined\<close>
  and compare equal.
\<close>

fun assignLoop :: "nat \<Rightarrow> ObjectId option \<Rightarrow> IUnitAssignment list \<Rightarrow> IUnitAssignment list" where
  "assignLoop 0 bId as = as"
| "assignLoop (Suc n) bId as =
     (let index = findIndex (\<lambda>a. buildingId a = bId \<and> a_type a = Harvest) as
      in assignLoop n bId
           (if index < 0
            then as @ [\<lparr>a_id = None, buildingId = bId, a_quantity = 1, a_type = Harvest,
                        a_endDate = 4070908800000\<rparr>]
            else as[nat index := (as ! nat index)\<lparr>a_quantity := a_quantity (as ! nat index) + 1\<rparr>]))"

definition assignBody ::
  "Collaborators \<Rightarrow> Date \<Rightarrow> Date \<Rightarrow> ObjectId \<Rightarrow> string \<Rightarrow> int option \<Rightarrow> IGarrison \<Rightarrow>
   error + IGarrison" where
  "assignBody env now nowU bid code quantity g =
     (case findBuilding g bid of
        Inl e \<Rightarrow> Inl e
      | Inr (garrBuilding, bIndex) \<Rightarrow>
        (case buildingRepo env (b_code garrBuilding) of
           None \<Rightarrow> Inl (ErrorHandler 404)
         | Some building \<Rightarrow>
           (case harvest building of
              None \<Rightarrow> Inl (ErrorHandler 400)
            | Some h \<Rightarrow>
              (case unitRepo env code of
                 None \<Rightarrow> Inl (ErrorHandler 404)
               | Some unit \<Rightarrow>
                 (case findUnit g code of
                    Inl e \<Rightarrow> Inl e
                  | Inr (garrUnits, uIndex) \<Rightarrow>
                    if orOne quantity > u_quantity garrUnits then Inl (ErrorHandler 412)
                    else if unavailable now garrBuilding then Inl (ErrorHandler 412)
                    else if orOne quantity > u_quantity garrUnits - unavailableUnits now garrUnits
                    then Inl (ErrorHandler 412)
                    else
                      (case refreshed env nowU code g of
                         Inl e \<Rightarrow> Inl e
                       | Inr g1 \<Rightarrow>
                           (let rs = resources g1;
                                rs' = (if b_code garrBuilding = ''goldmine'' \<and> goldLastUpdate rs = None
                                       then rs\<lparr>goldLastUpdate := Some now\<rparr>
                                       else if b_code garrBuilding = ''sawmill'' \<and> woodLastUpdate rs = None
                                       then rs\<lparr>woodLastUpdate := Some now\<rparr>
                                       else rs)
                            in Inr (g1\<lparr>resources := rs',
                                       units := (units g1)
                                         [uIndex := garrUnits
                                            \<lparr>assignments :=
                                               assignLoop (nat (orOne quantity)) (b_id garrBuilding)
                                                 (assignments garrUnits)\<rparr>]\<rparr>))))))))"

definition assignUnit ::
  "Collaborators \<Rightarrow> Date \<Rightarrow> Date \<Rightarrow> ObjectId \<Rightarrow> ObjectId \<Rightarrow> string \<Rightarrow> int option \<Rightarrow>
   GarrisonModel \<Rightarrow> (error + IGarrison) \<times> GarrisonModel" where
  "assignUnit env now nowU gid bid code quantity db =
     loadAndSave db gid (assignBody env now nowU bid code quantity)"

text \<open>
  \<^verbatim>\<open>unassignUnit\<close>, lines 825 to 827: the harvest assignment of the building loses the
  given quantity and is spliced out of the list when it reaches 0.
\<close>

definition unassigned ::
  "IGarrisonBuilding \<Rightarrow> int option \<Rightarrow> IUnitAssignment list \<Rightarrow> IUnitAssignment list" where
  "unassigned garrBuilding quantity as =
     (let index = findIndex (harvestMatch garrBuilding) as;
          a = as ! nat index;
          a' = a\<lparr>a_quantity := a_quantity a - orOne quantity\<rparr>;
          as1 = as[nat index := a']
      in if a_quantity a' = 0 then splice1 index as1 else as1)"

text \<open>
  \<^verbatim>\<open>unassignUnit\<close>: whether some harvest assignment left in the unit's list is on a
  building of the garrison that has the given code.
\<close>

definition activeWorker :: "IGarrisonBuilding list \<Rightarrow> string \<Rightarrow> IUnitAssignment list \<Rightarrow> bool" where
  "activeWorker bs code as =
     list_ex (\<lambda>a. a_type a = Harvest \<and>
                   list_ex (\<lambda>b. b_id b \<noteq> None \<and> buildingId a = b_id b \<and> b_code b = code) bs) as"

definition unassignBody ::
  "Collaborators \<Rightarrow> Date \<Rightarrow> ObjectId \<Rightarrow> string \<Rightarrow> int option \<Rightarrow> IGarrison \<Rightarrow>
   error + IGarrison" where
  "unassignBody env nowU bid code quantity g =
     (case findBuilding g bid of
        Inl e \<Rightarrow> Inl e
      | Inr (garrBuilding, bIndex) \<Rightarrow>
        (case buildingRepo env (b_code garrBuilding) of
           None \<Rightarrow> Inl (ErrorHandler 404)
         | Some building \<Rightarrow>
           (case harvest building of
              None \<Rightarrow> Inl (ErrorHandler 400)
            | Some h \<Rightarrow>
              (case unitRepo env code of
                 None \<Rightarrow> Inl (ErrorHandler 404)
               | Some unit \<Rightarrow>
                 (case findUnit g code of
                    Inl e \<Rightarrow> Inl e
                  | Inr (garrUnits, uIndex) \<Rightarrow>
                    (let index = findIndex (harvestMatch garrBuilding) (assignments garrUnits) in
                     if index < 0 then Inl (ErrorHandler 404)
                     else if a_quantity (assignments garrUnits ! nat index) < orOne quantity
                     then Inl (ErrorHandler 412)
                     else
                       (case refreshed env nowU code g of
                          Inl e \<Rightarrow> Inl e
                        | Inr g1 \<Rightarrow>
                            (let as2 = unassigned garrBuilding quantity (assignments garrUnits);
                                 noActiveworker =
                                   (\<not> activeWorker (buildings g1) (b_code garrBuilding) as2);
                                 rs = resources g1;
                                 rs' = (if b_code garrBuilding = ''goldmine''
                                        then (if noActiveworker then rs\<lparr>goldLastUpdate := None\<rparr> else rs)
                                        else if b_code garrBuilding = ''sawmill''
                                        then (if noActiveworker then rs\<lparr>woodLastUpdate := None\<rparr> else rs)
                                        else rs)
                             in Inr (g1\<lparr>resources := rs',
                                        units := (units g1)
                                          [uIndex := garrUnits\<lparr>assignments := as2\<rparr>]\<rparr>)))))))))"

definition unassignUnit ::
  "Collaborators \<Rightarrow> Date \<Rightarrow> ObjectId \<Rightarrow> ObjectId \<Rightarrow> string \<Rightarrow> int option \<Rightarrow>
   GarrisonModel \<Rightarrow> (error + IGarrison) \<times> GarrisonModel" where
  "unassignUnit env nowU gid bid code quantity db =
     loadAndSave db gid (unassignBody env nowU bid code quantity)"


section \<open>\<^verbatim>\<open>addBuilding\<close> and \<^verbatim>\<open>upgradeBuilding\<close>\<close>

text \<open>
  Both methods delegate their checks to helpers of \<^verbatim>\<open>helper.utils.garrison.repo\<close>,
  which is not part of the sources.

  Modelled from the spec: \<^verbatim>\<open>_gH.checkBuildingAvailability\<close> is missing. Section 4.2 of the
  spec requires the building idle (no unexpired construction), and section 7 names the
  failure of a busy building \<open>Conflict\<close> (409).
\<close>

definition checkBuildingAvailability :: "Date \<Rightarrow> IGarrisonBuilding \<Rightarrow> error option" where
  "checkBuildingAvailability now b =
     (if unavailable now b then Some (ErrorHandler 409) else None)"

text \<open>
  Modelled from the spec: \<^verbatim>\<open>_gH.checkBuildingImprovable\<close> (for an upgrade) is missing. The
  next level is the current highest upgrade level plus one; the request is rejected
  (\<open>PreconditionFailed\<close>) when the catalog defines no upgrade of that level.
\<close>

definition checkBuildingImprovable :: "IGarrisonBuilding \<Rightarrow> IBuilding \<Rightarrow> error + IUpgrade" where
  "checkBuildingImprovable b staticBuilding =
     (case find (\<lambda>u. up_level u = currentLevel Upgrade (constructions b) + 1)
                (case upgrades staticBuilding of None \<Rightarrow> [] | Some ups \<Rightarrow> ups) of
        None \<Rightarrow> Inl (ErrorHandler 412)
      | Some nextUpgrade \<Rightarrow> Inr nextUpgrade)"

text \<open>
  Modelled from the spec: \<^verbatim>\<open>_gH.checkConstructionRequirements\<close> is missing. Section 4.4:
  every required building must be fulfilled, as the in-line check of \<^verbatim>\<open>addUnit\<close> decides
  it; an unmet requirement is \<open>PreconditionFailed\<close>.
\<close>

definition checkConstructionRequirements ::
  "Date \<Rightarrow> IRequiredBuilding list \<Rightarrow> IGarrisonBuilding list \<Rightarrow> error option" where
  "checkConstructionRequirements now rqs bs =
     (if list_ex (unfulfilledRequirement now bs) rqs then Some (ErrorHandler 412) else None)"

text \<open>
  Modelled from the spec: \<^verbatim>\<open>_gH.computeConstructionDurationAndWorkforce\<close> and
  \<^verbatim>\<open>_gH.checkWorkforceCoherence\<close> are missing. Duration and minimum workforce scale
  exponentially in the level, and each worker above the minimum shortens the duration by
  3 percent, with the constants of the in-line computation of \<^verbatim>\<open>extendBuilding\<close>; a
  workforce that is not available, below the minimum or above twice the minimum is
  \<open>PreconditionFailed\<close>.
\<close>

definition computeConstructionDurationAndWorkforce :: "int \<Rightarrow> IBuilding \<Rightarrow> nat \<Rightarrow> rat" where
  "computeConstructionDurationAndWorkforce wforce staticBuilding level =
     Math_round (duration staticBuilding * (13 / 10) ^ level)
       * power_int (97 / 100) (wforce - minWorkforce staticBuilding * 2 ^ level)"

definition checkWorkforceCoherence ::
  "Date \<Rightarrow> int \<Rightarrow> IGarrisonUnit \<Rightarrow> IBuilding \<Rightarrow> nat \<Rightarrow> error option" where
  "checkWorkforceCoherence now wforce peasants staticBuilding level =
     (let minW = minWorkforce staticBuilding * 2 ^ level
      in if wforce > u_quantity peasants \<or> wforce > idle now peasants
            \<or> wforce < minW \<or> wforce > minW * 2
         then Some (ErrorHandler 412) else None)"

text \<open>
  Modelled from the spec: \<^verbatim>\<open>_gH.checkConstructionPaymentCapacity\<close> is missing. It debits
  the cost (gold, wood, plot), scaled exponentially in the level of an improvement by the
  factors of \<^verbatim>\<open>getFactor\<close>, from the resources, and fails with \<open>PreconditionFailed\<close>
  when they are insufficient.
\<close>

definition checkConstructionPaymentCapacity ::
  "(string \<Rightarrow> rat) \<Rightarrow> IGarrisonResources \<Rightarrow> IBuildingCost \<Rightarrow> nat \<Rightarrow>
   error + IGarrisonResources" where
  "checkConstructionPaymentCapacity factor rs c level =
     (let goldCost = Math_round (cost_gold c * factor ''default'' ^ level);
          woodCost = Math_round (cost_wood c * factor ''default'' ^ level);
          plotCost = Math_round (cost_plot c * factor ''decreased'' ^ level)
      in if gold rs - goldCost < 0 \<or> wood rs - woodCost < 0 \<or> plot rs - plotCost < 0
         then Inl (ErrorHandler 412)
         else Inr (rs\<lparr>gold := gold rs - goldCost,
                       wood := wood rs - woodCost,
                       plot := plot rs - plotCost\<rparr>))"

text \<open>
  \<^verbatim>\<open>addBuilding\<close> on the loaded document; the fresh ids of the building, the construction
  and the assignment are arguments.
\<close>

definition addBuildingBody ::
  "Collaborators \<Rightarrow> Date \<Rightarrow> Date \<Rightarrow> ObjectId \<Rightarrow> ObjectId \<Rightarrow> ObjectId \<Rightarrow> string \<Rightarrow> int \<Rightarrow>
   IGarrison \<Rightarrow> error + IGarrison" where
  "addBuildingBody env now nowU newBid newCid newAid code wforce g =
     (case findUnit g ''peasant'' of
        Inl e \<Rightarrow> Inl e
      | Inr (peasants, pIndex) \<Rightarrow>
        (case buildingRepo env code of
           None \<Rightarrow> Inl TypeError
         | Some staticBuilding \<Rightarrow>
           (case checkWorkforceCoherence now wforce peasants staticBuilding 0 of
              Some e \<Rightarrow> Inl e
            | None \<Rightarrow>
              (case (case requiredEntities staticBuilding of
                       None \<Rightarrow> None
                     | Some rqs \<Rightarrow> checkConstructionRequirements now rqs (buildings g)) of
                 Some e \<Rightarrow> Inl e
               | None \<Rightarrow>
                 (let d = computeConstructionDurationAndWorkforce wforce staticBuilding 0;
                      construction =
                        \<lparr>c_id = newCid, beginDate = now, c_endDate = addTime now (d * 1000),
                         workforce = wforce, improvement = None\<rparr>;
                      g1 = g\<lparr>buildings := buildings g @
                              [\<lparr>b_id = Some newBid, b_code = code,
                                constructions = [construction]\<rparr>]\<rparr>
                  in case updateResources nowU (buildingRepo env) g1 of
                       Inl e \<Rightarrow> Inl e
                     | Inr g2 \<Rightarrow>
                       (case checkConstructionPaymentCapacity (getFactor env) (resources g2)
                               (cost staticBuilding) 0 of
                          Inl e \<Rightarrow> Inl e
                        | Inr rs1 \<Rightarrow>
                          (let rs2 = (case harvest staticBuilding of
                                        None \<Rightarrow> rs1
                                      | Some h \<Rightarrow>
                                          if isGift h
                                          then setResource (h_resource h)
                                                 (getResource (h_resource h) rs1 + h_amount h) rs1
                                          else rs1)
                           in Inr (g2\<lparr>resources := rs2,
                                      units := (units g2)
                                        [pIndex := peasants
                                           \<lparr>assignments := assignments peasants @
                                              [\<lparr>a_id = Some newAid, buildingId = Some newBid,
                                                a_quantity = wforce, a_type = Construction,
                                                a_endDate = addTime now (d * 1000)\<rparr>]\<rparr>]\<rparr>))))))))"

definition addBuilding ::
  "Collaborators \<Rightarrow> Date \<Rightarrow> Date \<Rightarrow> ObjectId \<Rightarrow> ObjectId \<Rightarrow> ObjectId \<Rightarrow> ObjectId \<Rightarrow>
   string \<Rightarrow> int \<Rightarrow> GarrisonModel \<Rightarrow> (error + IGarrison) \<times> GarrisonModel" where
  "addBuilding env now nowU newBid newCid newAid gid code wforce db =
     loadAndSave db gid (addBuildingBody env now nowU newBid newCid newAid code wforce)"

text \<open>\<^verbatim>\<open>upgradeBuilding\<close> on the loaded document.\<close>

definition upgradeBody ::
  "Collaborators \<Rightarrow> Date \<Rightarrow> Date \<Rightarrow> ObjectId \<Rightarrow> ObjectId \<Rightarrow> ObjectId \<Rightarrow> int \<Rightarrow>
   IGarrison \<Rightarrow> error + IGarrison" where
  "upgradeBody env now nowU newCid newAid bid wforce g =
     (case findBuilding g bid of
        Inl e \<Rightarrow> Inl e
      | Inr (building, bIndex) \<Rightarrow>
        (case checkBuildingAvailability now building of
           Some e \<Rightarrow> Inl e
         | None \<Rightarrow>
           (case buildingRepo env (b_code building) of
              None \<Rightarrow> Inl TypeError
            | Some staticBuilding \<Rightarrow>
              (case checkBuildingImprovable building staticBuilding of
                 Inl e \<Rightarrow> Inl e
               | Inr nextUpgrade \<Rightarrow>
                 (case (case up_requiredEntities nextUpgrade of
                          None \<Rightarrow> None
                        | Some rqs \<Rightarrow> checkConstructionRequirements now rqs (buildings g)) of
                    Some e \<Rightarrow> Inl e
                  | None \<Rightarrow>
                    (let d = computeConstructionDurationAndWorkforce wforce staticBuilding
                               (up_level nextUpgrade)
                     in case findUnit g ''peasant'' of
                          Inl e \<Rightarrow> Inl e
                        | Inr (peasants, pIndex) \<Rightarrow>
                          (case checkWorkforceCoherence now wforce peasants staticBuilding
                                  (up_level nextUpgrade) of
                             Some e \<Rightarrow> Inl e
                           | None \<Rightarrow>
                             (let construction =
                                    \<lparr>c_id = newCid, beginDate = now,
                                     c_endDate = addTime now (d * 1000), workforce = wforce,
                                     improvement =
                                       Some \<lparr>imp_type = Upgrade, imp_level = up_level nextUpgrade\<rparr>\<rparr>;
                                  g1 = g\<lparr>buildings := (buildings g)
                                         [bIndex := building
                                            \<lparr>constructions := constructions building @ [construction]\<rparr>]\<rparr>
                              in case updateResources nowU (buildingRepo env) g1 of
                                   Inl e \<Rightarrow> Inl e
                                 | Inr g2 \<Rightarrow>
                                   (case checkConstructionPaymentCapacity (getFactor env)
                                           (resources g2) (cost staticBuilding)
                                           (up_level nextUpgrade) of
                                      Inl e \<Rightarrow> Inl e
                                    | Inr rs1 \<Rightarrow>
                                      (let rs2 = (case harvest staticBuilding of
                                                    None \<Rightarrow> rs1
                                                  | Some h \<Rightarrow>
                                                      if isGift h
                                                      then setResource (h_resource h)
                                                             (getResource (h_resource h) rs1
                                                              + Math_floor
                                                                  (h_amount h * (12 / 10) ^ up_level nextUpgrade))
                                                             rs1
                                                      else rs1)
                                       in Inr (g2\<lparr>resources := rs2,
                                                  units := (units g2)
                                                    [pIndex := peasants
                                                       \<lparr>assignments := assignments peasants @
                                                          [\<lparr>a_id = Some newAid,
                                                            buildingId = b_id building,
                                                            a_quantity = wforce,
                                                            a_type = Construction,
                                                            a_endDate = addTime now (d * 1000)\<rparr>]\<rparr>]\<rparr>)))))))))))"

definition upgradeBuilding ::
  "Collaborators \<Rightarrow> Date \<Rightarrow> Date \<Rightarrow> ObjectId \<Rightarrow> ObjectId \<Rightarrow> ObjectId \<Rightarrow> ObjectId \<Rightarrow> int \<Rightarrow>
   GarrisonModel \<Rightarrow> (error + IGarrison) \<times> GarrisonModel" where
  "upgradeBuilding env now nowU newCid newAid gid bid wforce db =
     loadAndSave db gid (upgradeBody env now nowU newCid newAid bid wforce)"

section \<open>\<^verbatim>\<open>create\<close>\<close>

text \<open>
  The character and zone repositories are collaborators outside the sources: \<open>faction\<close>
  gives the faction of a character, \<open>side\<close> the side of a zone. The fresh id of the
  document is an argument.
\<close>

definition create ::
  "(ObjectId \<Rightarrow> string option) \<Rightarrow> (string \<Rightarrow> string option) \<Rightarrow> ObjectId \<Rightarrow> ObjectId \<Rightarrow>
   string \<Rightarrow> string \<Rightarrow> GarrisonModel \<Rightarrow> (error + IGarrison) \<times> GarrisonModel" where
  "create faction side newId cid name zn db =
     (if (case find (\<lambda>g. characterId g = cid) db of
            None \<Rightarrow> False
          | Some characterGarrison \<Rightarrow> g_name characterGarrison = name)
      then (Inl (ErrorHandler 409), db)
      else
        (case side zn of
           None \<Rightarrow> (Inl TypeError, db)
         | Some sd \<Rightarrow>
           if sd \<noteq> (case faction cid of None \<Rightarrow> [] | Some f \<Rightarrow> f)
           then (Inl (ErrorHandler 400), db)
           else
             (let g = \<lparr>g_id = newId, characterId = cid, g_name = name, zone = zn,
                       resources = \<lparr>gold = 625, wood = 320, food = 3, plot = 32,
                                    goldLastUpdate = None, woodLastUpdate = None\<rparr>,
                       buildings = [],
                       units = [\<lparr>u_code = ''peasant'', u_quantity = 3, assignments = []\<rparr>]\<rparr>
              in (Inr g, db @ [g]))))"


section \<open>Notions used in the analysis\<close>


definition setStamp :: "string \<Rightarrow> Date \<Rightarrow> IGarrisonResources \<Rightarrow> IGarrisonResources" where
  "setStamp c now rs =
     (if c = ''goldmine'' then rs\<lparr>goldLastUpdate := Some now\<rparr>
      else if c = ''sawmill'' then rs\<lparr>woodLastUpdate := Some now\<rparr> else rs)"



subsection \<open>The invariant of the persisted garrisons\<close>

text \<open>Every resource quantity is non-negative.\<close>

definition nonneg :: "IGarrisonResources \<Rightarrow> bool" where
  "nonneg rs \<longleftrightarrow> 0 \<le> gold rs \<and> 0 \<le> wood rs \<and> 0 \<le> food rs \<and> 0 \<le> plot rs"






subsection \<open>A small catalog and garrisons for the concrete instances\<close>

definition exStatics :: BuildingRepository where
  "exStatics c =
     (if c = ''goldmine'' then
        Some \<lparr>cost = \<lparr>cost_gold = 100, cost_wood = 50, cost_plot = 5\<rparr>,
              minWorkforce = 2, duration = 60, requiredEntities = None,
              upgrades = Some [\<lparr>up_level = 1, up_requiredEntities = None\<rparr>],
              extension = Some \<lparr>ext_requiredEntities = None, maxLevel = Some 3\<rparr>,
              harvest = Some \<lparr>h_resource = Gold, h_amount = 1, maxWorkforce = Some 5\<rparr>\<rparr>
      else if c = ''sawmill'' then
        Some \<lparr>cost = \<lparr>cost_gold = 60, cost_wood = 20, cost_plot = 3\<rparr>,
              minWorkforce = 1, duration = 45, requiredEntities = None,
              upgrades = None, extension = None,
              harvest = Some \<lparr>h_resource = Wood, h_amount = 1 / 2, maxWorkforce = Some 4\<rparr>\<rparr>
      else if c = ''quarry'' then
        Some \<lparr>cost = \<lparr>cost_gold = 80, cost_wood = 40, cost_plot = 4\<rparr>,
              minWorkforce = 1, duration = 30, requiredEntities = None,
              upgrades = None, extension = None,
              harvest = Some \<lparr>h_resource = Gold, h_amount = 1, maxWorkforce = Some 5\<rparr>\<rparr>
      else if c = ''barracks'' then
        Some \<lparr>cost = \<lparr>cost_gold = 200, cost_wood = 100, cost_plot = 8\<rparr>,
              minWorkforce = 1, duration = 120, requiredEntities = None,
              upgrades = Some [\<lparr>up_level = 1, up_requiredEntities = None\<rparr>],
              extension = Some \<lparr>ext_requiredEntities = None, maxLevel = Some 2\<rparr>,
              harvest = None\<rparr>
      else None)"

definition exUnits :: UnitRepository where
  "exUnits c =
     (if c = ''peasant'' then
        Some \<lparr>u_cost = \<lparr>ucost_gold = 10, ucost_wood = 0, ucost_food = 1\<rparr>,
              u_duration = 10, u_requiredEntities = None\<rparr>
      else if c = ''knight'' then
        Some \<lparr>u_cost = \<lparr>ucost_gold = 50, ucost_wood = 10, ucost_food = 2\<rparr>,
              u_duration = 30, u_requiredEntities = None\<rparr>
      else if c = ''catapult'' then
        Some \<lparr>u_cost = \<lparr>ucost_gold = 400, ucost_wood = 150, ucost_food = 1\<rparr>,
              u_duration = 60, u_requiredEntities = None\<rparr>
      else None)"

definition exFactor :: "string \<Rightarrow> rat" where
  "exFactor k = (if k = ''default'' then 16 / 10 else if k = ''decreased'' then 15 / 10 else 1)"

definition exEnv :: Collaborators where
  "exEnv = \<lparr>buildingRepo = exStatics, unitRepo = exUnits, getFactor = exFactor\<rparr>"

definition harvesting :: "ObjectId \<Rightarrow> int \<Rightarrow> IUnitAssignment" where
  "harvesting bid q =
     \<lparr>a_id = None, buildingId = Some bid, a_quantity = q, a_type = Harvest,
      a_endDate = 4070908800000\<rparr>"

definition built :: "ObjectId \<Rightarrow> string \<Rightarrow> IGarrisonBuilding" where
  "built bid c =
     \<lparr>b_id = Some bid, b_code = c,
      constructions = [\<lparr>c_id = 100 + bid, beginDate = - 120000, c_endDate = - 60000,
                        workforce = 2, improvement = None\<rparr>]\<rparr>"




text \<open>
  The construction list of the building as \<^verbatim>\<open>cancelBuildingConstruction\<close> leaves it: an
  improvement is spliced out, the instantiation construction stays in the list of the
  removed building.
\<close>

definition spliced :: "IGarrisonBuilding \<Rightarrow> nat \<Rightarrow> IOperatedConstruction list" where
  "spliced building cIndex =
     (case improvement (constructions building ! cIndex) of
        Some i \<Rightarrow> splice1 (int cIndex) (constructions building)
      | None \<Rightarrow> constructions building)"

text \<open>
  A goldmine whose upgrade to level 1 (construction 201) is under way, and a finished
  sawmill; the peasants hold the construction assignment of the upgrade and, after it, a
  harvest assignment at the sawmill.
\<close>

definition exUpgrading :: IGarrison where
  "exUpgrading =
     \<lparr>g_id = 4, characterId = 4, g_name = ''works'', zone = ''north'',
      resources = \<lparr>gold = 500, wood = 300, food = 3, plot = 20,
                   goldLastUpdate = None, woodLastUpdate = None\<rparr>,
      buildings =
        [\<lparr>b_id = Some 1, b_code = ''goldmine'',
          constructions =
            [\<lparr>c_id = 101, beginDate = - 120000, c_endDate = - 60000, workforce = 2,
              improvement = None\<rparr>,
             \<lparr>c_id = 201, beginDate = 0, c_endDate = 900000, workforce = 2,
              improvement = Some \<lparr>imp_type = Upgrade, imp_level = 1\<rparr>\<rparr>]\<rparr>,
         built 2 ''sawmill''],
      units =
        [\<lparr>u_code = ''peasant'', u_quantity = 5,
          assignments =
            [\<lparr>a_id = Some 301, buildingId = Some 1, a_quantity = 2, a_type = Construction,
              a_endDate = 900000\<rparr>,
             harvesting 2 1]\<rparr>]\<rparr>"

text \<open>
  \<open>exUpgrading\<close> after the first copy of \<^verbatim>\<open>cancelBuildingConstruction\<close> cancelled the
  upgrade 201.
\<close>

definition exAfterCancel :: IGarrison where
  "exAfterCancel =
     exUpgrading
       \<lparr>resources := (resources exUpgrading)\<lparr>gold := 1015 / 2, wood := 350, plot := 25\<rparr>,
        buildings := [built 1 ''goldmine'', built 2 ''sawmill''],
        units := [\<lparr>u_code = ''peasant'', u_quantity = 5,
                   assignments = [\<lparr>a_id = Some 301, buildingId = Some 1, a_quantity = 2,
                                   a_type = Construction, a_endDate = 900000\<rparr>]\<rparr>]\<rparr>"

text \<open>
  The unit of a code in a garrison as the idle-availability formula sees it: the unit
  \<^verbatim>\<open>findIndex\<close> finds, or an empty cohort when the garrison has none.
\<close>

definition unitOf :: "IGarrison \<Rightarrow> string \<Rightarrow> IGarrisonUnit" where
  "unitOf g code =
     (let i = findIndex (\<lambda>u. u_code u = code) (units g)
      in if i < 0 then \<lparr>u_code = code, u_quantity = 0, assignments = []\<rparr>
         else units g ! nat i)"

text \<open>
  A batch of \<open>n\<close> training assignments of quantity 1 that end \<open>D\<close>, \<open>2 * D\<close>, ...,
  \<open>n * D\<close> ms after \<open>now\<close>.
\<close>

definition batch :: "Date \<Rightarrow> int \<Rightarrow> nat \<Rightarrow> IUnitAssignment list" where
  "batch now D n =
     map (\<lambda>i. \<lparr>a_id = None, buildingId = None, a_quantity = 1, a_type = Instantiation,
                a_endDate = now + int i * D\<rparr>) [1..<Suc n]"

text \<open>
  A garrison as \<^verbatim>\<open>create\<close> makes it, and the same after three peasants were put in
  training at time 1000 (10 s each).
\<close>

definition exFresh :: IGarrison where
  "exFresh =
     \<lparr>g_id = 5, characterId = 5, g_name = ''camp'', zone = ''north'',
      resources = \<lparr>gold = 625, wood = 320, food = 3, plot = 32,
                   goldLastUpdate = None, woodLastUpdate = None\<rparr>,
      buildings = [],
      units = [\<lparr>u_code = ''peasant'', u_quantity = 3, assignments = []\<rparr>]\<rparr>"

definition exTrained :: IGarrison where
  "exTrained =
     exFresh
       \<lparr>resources := (resources exFresh)\<lparr>gold := 595, food := 0\<rparr>,
        units := [\<lparr>u_code = ''peasant'', u_quantity = 6,
                   assignments = batch 1000 10000 3\<rparr>]\<rparr>"

text \<open>Two catapults put in training at time 1000 (60 s each).\<close>

definition exCatapults :: IGarrisonUnit where
  "exCatapults =
     \<lparr>u_code = ''catapult'', u_quantity = 2,
      assignments =
        [\<lparr>a_id = None, buildingId = None, a_quantity = 1, a_type = Instantiation,
          a_endDate = 61000\<rparr>,
         \<lparr>a_id = None, buildingId = None, a_quantity = 1, a_type = Instantiation,
          a_endDate = 121000\<rparr>]\<rparr>"

text \<open>A finished, idle goldmine, ten idle peasants and ample resources.\<close>

definition exYard :: IGarrison where
  "exYard =
     \<lparr>g_id = 6, characterId = 6, g_name = ''yard'', zone = ''north'',
      resources = \<lparr>gold = 1000, wood = 500, food = 3, plot = 50,
                   goldLastUpdate = None, woodLastUpdate = None\<rparr>,
      buildings = [built 1 ''goldmine''],
      units = [\<lparr>u_code = ''peasant'', u_quantity = 10, assignments = []\<rparr>]\<rparr>"

text \<open>
  A garrison with two goldmines where peasants harvest at both and a knight at the first,
  and the documents two \<^verbatim>\<open>unassignUnit\<close> requests leave.
\<close>

definition exCrew :: IGarrison where
  "exCrew =
     \<lparr>g_id = 7, characterId = 7, g_name = ''crew'', zone = ''north'',
      resources = \<lparr>gold = 40, wood = 10, food = 3, plot = 5,
                   goldLastUpdate = Some 0, woodLastUpdate = None\<rparr>,
      buildings = [built 1 ''goldmine'', built 2 ''goldmine''],
      units = [\<lparr>u_code = ''peasant'', u_quantity = 5,
                assignments = [harvesting 1 2, harvesting 2 1]\<rparr>,
               \<lparr>u_code = ''knight'', u_quantity = 2, assignments = [harvesting 1 1]\<rparr>]\<rparr>"

definition exKnightsHome :: IGarrison where
  "exKnightsHome =
     exCrew\<lparr>resources := (resources exCrew)\<lparr>goldLastUpdate := None\<rparr>,
            units := [\<lparr>u_code = ''peasant'', u_quantity = 5,
                       assignments = [harvesting 1 2, harvesting 2 1]\<rparr>,
                      \<lparr>u_code = ''knight'', u_quantity = 2, assignments = []\<rparr>]\<rparr>"



text \<open>
  A garrison whose only building, a barracks, is still under construction at time 1000.
\<close>

definition exDrill :: IGarrison where
  "exDrill =
     \<lparr>g_id = 8, characterId = 8, g_name = ''drill'', zone = ''north'',
      resources = \<lparr>gold = 500, wood = 300, food = 3, plot = 20,
                   goldLastUpdate = None, woodLastUpdate = None\<rparr>,
      buildings =
        [\<lparr>b_id = Some 3, b_code = ''barracks'',
          constructions =
            [\<lparr>c_id = 103, beginDate = 0, c_endDate = 900000, workforce = 2,
              improvement = None\<rparr>]\<rparr>],
      units =
        [\<lparr>u_code = ''peasant'', u_quantity = 5,
          assignments =
            [\<lparr>a_id = Some 303, buildingId = Some 3, a_quantity = 2, a_type = Construction,
              a_endDate = 900000\<rparr>]\<rparr>]\<rparr>"


subsection \<open>Sequences of requests\<close>

text \<open>
  A request to one of the eight exposed methods, with the clock readings and the fresh
  ids the call draws: \<open>now\<close> is the reading of the method, \<open>nowU\<close> the later one of
  \<^verbatim>\<open>updateResources\<close>.
\<close>

datatype request =
    Create ObjectId ObjectId string string
  | AddBuilding Date Date ObjectId ObjectId ObjectId ObjectId string int
  | CancelBuildingConstruction ObjectId ObjectId ObjectId
  | UpgradeBuilding Date Date ObjectId ObjectId ObjectId ObjectId int
  | ExtendBuilding Date ObjectId ObjectId ObjectId ObjectId int
  | AddUnit Date Date ObjectId string "int option"
  | AssignUnit Date Date ObjectId ObjectId string "int option"
  | UnassignUnit Date ObjectId ObjectId string "int option"

text \<open>The collection a request leaves.\<close>

fun perform ::
  "Collaborators \<Rightarrow> (ObjectId \<Rightarrow> string option) \<Rightarrow> (string \<Rightarrow> string option) \<Rightarrow> request \<Rightarrow>
   GarrisonModel \<Rightarrow> GarrisonModel" where
  "perform env faction side (Create newId cid name zn) db =
     snd (create faction side newId cid name zn db)"
| "perform env faction side (AddBuilding now nowU newBid newCid newAid gid code wforce) db =
     snd (addBuilding env now nowU newBid newCid newAid gid code wforce db)"
| "perform env faction side (CancelBuildingConstruction gid bid cid) db =
     snd (cancelBuildingConstruction env gid bid cid db)"
| "perform env faction side (UpgradeBuilding now nowU newCid newAid gid bid wforce) db =
     snd (upgradeBuilding env now nowU newCid newAid gid bid wforce db)"
| "perform env faction side (ExtendBuilding now newCid newAid gid bid wforce) db =
     snd (extendBuilding env now newCid newAid gid bid wforce db)"
| "perform env faction side (AddUnit now nowU gid code quantity) db =
     snd (addUnit env now nowU gid code quantity db)"
| "perform env faction side (AssignUnit now nowU gid bid code quantity) db =
     snd (assignUnit env now nowU gid bid code quantity db)"
| "perform env faction side (UnassignUnit nowU gid bid code quantity) db =
     snd (unassignUnit env nowU gid bid code quantity db)"




text \<open>The collection a sequence of requests leaves.\<close>

fun run ::
  "Collaborators \<Rightarrow> (ObjectId \<Rightarrow> string option) \<Rightarrow> (string \<Rightarrow> string option) \<Rightarrow> request list \<Rightarrow>
   GarrisonModel \<Rightarrow> GarrisonModel" where
  "run env faction side [] db = db"
| "run env faction side (r # rs) db = run env faction side rs (perform env faction side r db)"



section \<open>The accrual engine: results\<close>


lemma gained_zero: "gained amount now now w = 0"
  by (simp add: gained_def)


lemma setResource_stamps [simp]:
  "goldLastUpdate (setResource r v rs) = goldLastUpdate rs"
  "woodLastUpdate (setResource r v rs) = woodLastUpdate rs"
  by (cases r; simp)+
























section \<open>Lookups and storage: basic facts\<close>

lemma findIndex_range: "- 1 \<le> findIndex p xs \<and> findIndex p xs < int (length xs)"
  by (induction xs) (auto simp: Let_def)

lemma findIndex_neg_iff: "findIndex p xs < 0 \<longleftrightarrow> \<not> list_ex p xs"
  by (induction xs) (auto simp: Let_def)


lemma findIndex_hit: "0 \<le> findIndex p xs \<Longrightarrow> p (xs ! nat (findIndex p xs))"
proof (induction xs)
  case Nil then show ?case by simp
next
  case (Cons x xs)
  then show ?case
    by (auto simp: Let_def nat_add_distrib split: if_splits)
qed

lemma findIndex_first: "0 \<le> findIndex p xs \<Longrightarrow> j < nat (findIndex p xs) \<Longrightarrow> \<not> p (xs ! j)"
proof (induction xs arbitrary: j)
  case Nil then show ?case by simp
next
  case (Cons x xs)
  then show ?case
    by (cases j) (auto simp: Let_def nat_add_distrib split: if_splits)
qed


lemma splice1_nat: "k \<le> length xs \<Longrightarrow> splice1 (int k) xs = take k xs @ drop (Suc k) xs"
  by (simp add: splice1_def Let_def min_def)

lemma findBuilding_Inr:
  "findBuilding g bid = Inr (b, i) \<Longrightarrow> i < length (buildings g) \<and> buildings g ! i = b \<and> b_id b = Some bid"
  using findIndex_range[of "\<lambda>b. b_id b = Some bid" "buildings g"]
        findIndex_hit[of "\<lambda>b. b_id b = Some bid" "buildings g"]
  by (auto simp: findBuilding_def Let_def split: if_splits)


lemma findBuildingConstruction_Inr:
  "findBuildingConstruction b cid = Inr i \<Longrightarrow> i < length (constructions b) \<and> c_id (constructions b ! i) = cid"
  using findIndex_range[of "\<lambda>c. c_id c = cid" "constructions b"]
        findIndex_hit[of "\<lambda>c. c_id c = cid" "constructions b"]
  by (auto simp: findBuildingConstruction_def Let_def split: if_splits)

lemma findById_save:
  "findById db gid = Inr g \<Longrightarrow> g_id g' = gid \<Longrightarrow> findById (save g' db) gid = Inr g'"
proof (induction db)
  case Nil then show ?case by (simp add: findById_def)
next
  case (Cons d db)
  then show ?case by (auto simp: findById_def save_def split: option.splits if_splits)
qed

lemma findById_id: "findById db gid = Inr g \<Longrightarrow> g_id g = gid"
  by (auto simp: findById_def split: option.splits dest: find_Some_iff[THEN iffD1])

lemma loadAndSave_found:
  "findById db gid = Inr g \<Longrightarrow>
   loadAndSave db gid body =
     (case body g of
        Inl e \<Rightarrow> (Inl e, db)
      | Inr g' \<Rightarrow> (findById (save g' db) (g_id g'), save g' db))"
  by (simp add: loadAndSave_def)

lemma loadAndSave_Inr:
  "findById db gid = Inr g \<Longrightarrow> body g = Inr g' \<Longrightarrow> g_id g' = g_id g \<Longrightarrow>
   loadAndSave db gid body = (Inr g', save g' db)"
  by (simp add: loadAndSave_def findById_save findById_id)

lemma loadAndSave_Inl:
  "findById db gid = Inr g \<Longrightarrow> body g = Inl e \<Longrightarrow> loadAndSave db gid body = (Inl e, db)"
  by (simp add: loadAndSave_def)

lemma loadAndSave_missing:
  "findById db gid = Inl e \<Longrightarrow> loadAndSave db gid body = (Inl e, db)"
  by (simp add: loadAndSave_def)

lemma loadAndSave_result:
  assumes "findById db gid = Inr g"
    and "\<And>m. body g = Inr m \<Longrightarrow> g_id m = g_id g"
    and "loadAndSave db gid body = (Inr g', db')"
  shows "body g = Inr g' \<and> db' = save g' db"
proof (cases "body g")
  case (Inl e)
  with assms(1,3) show ?thesis by (simp add: loadAndSave_found)
next
  case (Inr m)
  with assms show ?thesis
    by (auto simp add: loadAndSave_found findById_save[OF assms(1)] findById_id[OF assms(1)])
qed

section \<open>\<^verbatim>\<open>cancelBuildingConstruction\<close>: results\<close>

lemma cancelBody_Inr:
  assumes "findBuilding g bid = Inr (building, bIndex)"
    and "findBuildingConstruction building cid = Inr cIndex"
    and "repo (b_code building) = Some sb"
    and "findUnit g ''peasant'' = Inr (peasants, pIndex)"
  shows "cancelBody refundOf repo bid cid g =
     Inr (g\<lparr>resources :=
             cancelHarvest (harvest sb) (b_code building)
               (case improvement (constructions building ! cIndex) of
                  Some i \<Rightarrow> (buildings g)[bIndex := building\<lparr>constructions := spliced building cIndex\<rparr>]
                | None \<Rightarrow> splice1 (int bIndex) (buildings g))
               ((resources g)
                  \<lparr>gold := gold (resources g) + fst (refundOf (cost sb) (improvement (constructions building ! cIndex))),
                   wood := wood (resources g) + fst (snd (refundOf (cost sb) (improvement (constructions building ! cIndex)))),
                   plot := plot (resources g) + snd (snd (refundOf (cost sb) (improvement (constructions building ! cIndex))))\<rparr>),
           buildings :=
             (case improvement (constructions building ! cIndex) of
                Some i \<Rightarrow> (buildings g)[bIndex := building\<lparr>constructions := spliced building cIndex\<rparr>]
              | None \<Rightarrow> splice1 (int bIndex) (buildings g)),
           units := (units g)
             [pIndex := peasants
                \<lparr>assignments :=
                   splice1 (releaseIndex (spliced building cIndex) cIndex (assignments peasants))
                     (assignments peasants)\<rparr>]\<rparr>)"
  using assms
  by (simp add: cancelBody_def Let_def split_def spliced_def split: option.splits)

lemma cancelHarvest_amounts [simp]:
  "gold (cancelHarvest hv c bs rs) = gold rs"
  "wood (cancelHarvest hv c bs rs) = wood rs"
  "plot (cancelHarvest hv c bs rs) = plot rs"
  "food (cancelHarvest hv c bs rs) = food rs"
  by (auto simp: cancelHarvest_def split: option.splits; cases "h_resource (the hv)"; simp)+

lemma refund_slip:
  "refund f c (Some i) = (cost_plot c * f ''decreased'' ^ imp_level i, cost_wood c, cost_plot c)"
  by (simp add: refund_def Let_def)

lemma refund_part002_scaled:
  "refund_part002 f c (Some i) =
     (cost_gold c * f ''default'' ^ imp_level i, cost_wood c * f ''default'' ^ imp_level i,
      cost_plot c * f ''decreased'' ^ imp_level i)"
  by (simp add: refund_part002_def Let_def)

lemma refund_None: "refund f c None = (cost_gold c, cost_wood c, cost_plot c)"
  "refund_part002 f c None = (cost_gold c, cost_wood c, cost_plot c)"
  by (simp_all add: refund_def refund_part002_def Let_def)

text \<open>
  Claim C7. When the garrison, the building, the construction and the peasant unit are
  found and the target construction carries no improvement, the call succeeds, the
  building is removed from the building list (the other buildings keep their order), and
  gold, wood and plot grow by exactly the static instantiation cost; food is unchanged.
  Both copies of the method agree here.
\<close>

theorem cancel_instantiation_refund:
  assumes "findById db gid = Inr g"
    and "findBuilding g bid = Inr (building, bIndex)"
    and "findBuildingConstruction building cid = Inr cIndex"
    and "buildingRepo env (b_code building) = Some sb"
    and "findUnit g ''peasant'' = Inr (peasants, pIndex)"
    and "improvement (constructions building ! cIndex) = None"
  shows "(\<exists>g'. cancelBuildingConstruction env gid bid cid db = (Inr g', save g' db)
       \<and> buildings g' = take bIndex (buildings g) @ drop (Suc bIndex) (buildings g)
       \<and> buildings g ! bIndex = building \<and> b_id building = Some bid
       \<and> gold (resources g') = gold (resources g) + cost_gold (cost sb)
       \<and> wood (resources g') = wood (resources g) + cost_wood (cost sb)
       \<and> plot (resources g') = plot (resources g) + cost_plot (cost sb)
       \<and> food (resources g') = food (resources g))
     \<and> (\<exists>g'. cancelBuildingConstruction_part002 env gid bid cid db = (Inr g', save g' db)
       \<and> buildings g' = take bIndex (buildings g) @ drop (Suc bIndex) (buildings g)
       \<and> gold (resources g') = gold (resources g) + cost_gold (cost sb)
       \<and> wood (resources g') = wood (resources g) + cost_wood (cost sb)
       \<and> plot (resources g') = plot (resources g) + cost_plot (cost sb)
       \<and> food (resources g') = food (resources g))"
proof -
  note fb = findBuilding_Inr[OF assms(2)]
  have body: "cancelBody refundOf (buildingRepo env) bid cid g = Inr (g
      \<lparr>resources := cancelHarvest (harvest sb) (b_code building) (splice1 (int bIndex) (buildings g))
           ((resources g)\<lparr>gold := gold (resources g) + fst (refundOf (cost sb) None),
             wood := wood (resources g) + fst (snd (refundOf (cost sb) None)),
             plot := plot (resources g) + snd (snd (refundOf (cost sb) None))\<rparr>),
       buildings := splice1 (int bIndex) (buildings g),
       units := (units g)[pIndex := peasants\<lparr>assignments :=
          splice1 (releaseIndex (spliced building cIndex) cIndex (assignments peasants))
                     (assignments peasants)\<rparr>]\<rparr>)" for refundOf
    using cancelBody_Inr[where repo="buildingRepo env" and refundOf=refundOf, OF assms(2,3,4,5)]
      assms(6) by simp
  have sp: "splice1 (int bIndex) (buildings g) = take bIndex (buildings g) @ drop (Suc bIndex) (buildings g)"
    using fb by (simp add: splice1_nat)
  show ?thesis
    unfolding cancelBuildingConstruction_def cancelBuildingConstruction_part002_def
    using fb sp
    by (simp add: loadAndSave_found[OF assms(1)] body findById_save[OF assms(1)]
          findById_id[OF assms(1)] refund_None)
qed


lemmas cancel_eval = cancelBuildingConstruction_def cancelBuildingConstruction_part002_def
  loadAndSave_def findById_def save_def cancelBody_def
  findBuilding_def findUnit_def findBuildingConstruction_def refund_def refund_part002_def cancelHarvest_def
  releaseIndex_def elemAt_def splice1_def Let_def exEnv_def exStatics_def exFactor_def
  exUpgrading_def built_def harvesting_def spliced_def

text \<open>The theorem at a concrete input: the instantiation construction 101 is cancelled.\<close>

theorem cancel_instantiation_refund_witness:
  "findById [exUpgrading] 4 = Inr exUpgrading
   \<and> findBuilding exUpgrading 1 = Inr (buildings exUpgrading ! 0, 0)
   \<and> findBuildingConstruction (buildings exUpgrading ! 0) 101 = Inr 0
   \<and> map_option cost (buildingRepo exEnv (b_code (buildings exUpgrading ! 0)))
       = Some \<lparr>cost_gold = 100, cost_wood = 50, cost_plot = 5\<rparr>
   \<and> findUnit exUpgrading ''peasant'' = Inr (units exUpgrading ! 0, 0)
   \<and> improvement (constructions (buildings exUpgrading ! 0) ! 0) = None
   \<and> (\<exists>g'. cancelBuildingConstruction exEnv 4 1 101 [exUpgrading] = (Inr g', save g' [exUpgrading])
         \<and> buildings g' = [built 2 ''sawmill'']
         \<and> gold (resources g') = 600 \<and> wood (resources g') = 350
         \<and> plot (resources g') = 25 \<and> food (resources g') = 3)"
proof -
  have a: "findById [exUpgrading] 4 = Inr exUpgrading"
    and b: "findBuilding exUpgrading 1 = Inr (buildings exUpgrading ! 0, 0)"
    and c: "findBuildingConstruction (buildings exUpgrading ! 0) 101 = Inr 0"
    and d: "buildingRepo exEnv (b_code (buildings exUpgrading ! 0))
              = Some (the (exStatics ''goldmine''))"
    and e: "findUnit exUpgrading ''peasant'' = Inr (units exUpgrading ! 0, 0)"
    and f: "improvement (constructions (buildings exUpgrading ! 0) ! 0) = None"
    by (simp_all add: cancel_eval)
  have g: "cost (the (exStatics ''goldmine'')) = \<lparr>cost_gold = 100, cost_wood = 50, cost_plot = 5\<rparr>"
    by (simp add: exStatics_def)
  have h: "buildings exUpgrading = [buildings exUpgrading ! 0, built 2 ''sawmill'']"
     "resources exUpgrading = \<lparr>gold = 500, wood = 300, food = 3, plot = 20,
                   goldLastUpdate = None, woodLastUpdate = None\<rparr>"
    by (simp_all add: exUpgrading_def)
  from cancel_instantiation_refund[where env=exEnv, OF a b c d e f]
  obtain g' where "cancelBuildingConstruction exEnv 4 1 101 [exUpgrading] = (Inr g', save g' [exUpgrading])"
    "buildings g' = take 0 (buildings exUpgrading) @ drop (Suc 0) (buildings exUpgrading)"
    "gold (resources g') = gold (resources exUpgrading) + cost_gold (cost (the (exStatics ''goldmine'')))"
    "wood (resources g') = wood (resources exUpgrading) + cost_wood (cost (the (exStatics ''goldmine'')))"
    "plot (resources g') = plot (resources exUpgrading) + cost_plot (cost (the (exStatics ''goldmine'')))"
    "food (resources g') = food (resources exUpgrading)"
    by blast
  then have "cancelBuildingConstruction exEnv 4 1 101 [exUpgrading] = (Inr g', save g' [exUpgrading])
         \<and> buildings g' = [built 2 ''sawmill'']
         \<and> gold (resources g') = 600 \<and> wood (resources g') = 350
         \<and> plot (resources g') = 25 \<and> food (resources g') = 3"
    using g by (subst (asm) (1 2) h(1)) (simp add: h(2))
  then show ?thesis using a b c d e f g by (simp add: exI[of _ g'])
qed

text \<open>
  Claim C2. The first copy of the method (\<^verbatim>\<open>garrison.repo.ts\<close>) does not refund an
  improvement as the claim says: its three scaling assignments all write \<^verbatim>\<open>gold\<close>, so
  that gold is credited with the plot cost scaled by the decreased factor, and wood and
  plot with their unscaled costs. At \<open>exUpgrading\<close> (cost 100 gold, 50 wood, 5 plot; level
  1; factors 1.6 and 1.5) the claim gives 160 gold, 80 wood and 7.5 plot; the method
  credits 7.5 gold, 50 wood and 5 plot.
\<close>

theorem cancel_improvement_refund_slip:
  "findById [exUpgrading] 4 = Inr exUpgrading
   \<and> findBuilding exUpgrading 1 = Inr (buildings exUpgrading ! 0, 0)
   \<and> findBuildingConstruction (buildings exUpgrading ! 0) 201 = Inr 1
   \<and> improvement (constructions (buildings exUpgrading ! 0) ! 1)
       = Some \<lparr>imp_type = Upgrade, imp_level = 1\<rparr>
   \<and> map_option cost (buildingRepo exEnv ''goldmine'')
       = Some \<lparr>cost_gold = 100, cost_wood = 50, cost_plot = 5\<rparr>
   \<and> getFactor exEnv ''default'' = 16 / 10 \<and> getFactor exEnv ''decreased'' = 15 / 10
   \<and> cancelBuildingConstruction exEnv 4 1 201 [exUpgrading] = (Inr exAfterCancel, [exAfterCancel])
   \<and> gold (resources exAfterCancel) = gold (resources exUpgrading) + 5 * (15 / 10) ^ 1
   \<and> gold (resources exAfterCancel) \<noteq> gold (resources exUpgrading) + 100 * (16 / 10) ^ 1
   \<and> wood (resources exAfterCancel) = wood (resources exUpgrading) + 50
   \<and> wood (resources exAfterCancel) \<noteq> wood (resources exUpgrading) + 50 * (16 / 10) ^ 1
   \<and> plot (resources exAfterCancel) = plot (resources exUpgrading) + 5
   \<and> plot (resources exAfterCancel) \<noteq> plot (resources exUpgrading) + 5 * (15 / 10) ^ 1"
  by (simp add: cancel_eval exAfterCancel_def)

text \<open>
  In general, and in contrast with the second copy (\<^verbatim>\<open>src/unnamed/part_002\<close>), which
  refunds as the claim says and removes the one construction only.
\<close>

lemma cancelBody_improvement:
  assumes "findById db gid = Inr g"
    and "findBuilding g bid = Inr (building, bIndex)"
    and "findBuildingConstruction building cid = Inr cIndex"
    and "repo (b_code building) = Some sb"
    and "findUnit g ''peasant'' = Inr (peasants, pIndex)"
    and "improvement (constructions building ! cIndex) = Some i"
  shows "\<exists>g'. loadAndSave db gid (cancelBody refundOf repo bid cid) = (Inr g', save g' db)
       \<and> buildings g' = (buildings g)
            [bIndex := building\<lparr>constructions :=
               take cIndex (constructions building) @ drop (Suc cIndex) (constructions building)\<rparr>]
       \<and> gold (resources g') = gold (resources g) + fst (refundOf (cost sb) (Some i))
       \<and> wood (resources g') = wood (resources g) + fst (snd (refundOf (cost sb) (Some i)))
       \<and> plot (resources g') = plot (resources g) + snd (snd (refundOf (cost sb) (Some i)))
       \<and> food (resources g') = food (resources g)"
proof -
  note fc = findBuildingConstruction_Inr[OF assms(3)]
  have sp: "spliced building cIndex =
      take cIndex (constructions building) @ drop (Suc cIndex) (constructions building)"
    using fc assms(6) by (simp add: spliced_def splice1_nat)
  show ?thesis
    using cancelBody_Inr[where repo=repo and refundOf=refundOf, OF assms(2,3,4,5)] assms(6) sp
    by (simp add: loadAndSave_found[OF assms(1)] findById_save[OF assms(1)]
          findById_id[OF assms(1)])
qed

lemma cancel_improvement_refund_part002:
  assumes "findById db gid = Inr g"
    and "findBuilding g bid = Inr (building, bIndex)"
    and "findBuildingConstruction building cid = Inr cIndex"
    and "buildingRepo env (b_code building) = Some sb"
    and "findUnit g ''peasant'' = Inr (peasants, pIndex)"
    and "improvement (constructions building ! cIndex) = Some i"
  shows "\<exists>g'. cancelBuildingConstruction_part002 env gid bid cid db = (Inr g', save g' db)
       \<and> buildings g' = (buildings g)
            [bIndex := building\<lparr>constructions :=
               take cIndex (constructions building) @ drop (Suc cIndex) (constructions building)\<rparr>]
       \<and> gold (resources g') =
           gold (resources g) + cost_gold (cost sb) * getFactor env ''default'' ^ imp_level i
       \<and> wood (resources g') =
           wood (resources g) + cost_wood (cost sb) * getFactor env ''default'' ^ imp_level i
       \<and> plot (resources g') =
           plot (resources g) + cost_plot (cost sb) * getFactor env ''decreased'' ^ imp_level i"
  using cancelBody_improvement[where repo="buildingRepo env"
      and refundOf="refund_part002 (getFactor env)", OF assms]
  by (auto simp: cancelBuildingConstruction_part002_def refund_part002_scaled)

lemma cancel_improvement_refund_named:
  assumes "findById db gid = Inr g"
    and "findBuilding g bid = Inr (building, bIndex)"
    and "findBuildingConstruction building cid = Inr cIndex"
    and "buildingRepo env (b_code building) = Some sb"
    and "findUnit g ''peasant'' = Inr (peasants, pIndex)"
    and "improvement (constructions building ! cIndex) = Some i"
  shows "\<exists>g'. cancelBuildingConstruction env gid bid cid db = (Inr g', save g' db)
       \<and> gold (resources g') =
           gold (resources g) + cost_plot (cost sb) * getFactor env ''decreased'' ^ imp_level i
       \<and> wood (resources g') = wood (resources g) + cost_wood (cost sb)
       \<and> plot (resources g') = plot (resources g) + cost_plot (cost sb)"
  using cancelBody_improvement[where repo="buildingRepo env"
      and refundOf="refund (getFactor env)", OF assms]
  by (auto simp: cancelBuildingConstruction_def refund_slip)




section \<open>\<^verbatim>\<open>addUnit\<close>: results\<close>

lemma elemAt_last: "elemAt acc (int (length acc) - 1) = (if acc = [] then None else Some (last acc))"
  by (cases acc rule: rev_cases) (auto simp: elemAt_def nth_append)

lemma batch_Suc:
  "batch t D (Suc n) =
     \<lparr>a_id = None, buildingId = None, a_quantity = 1, a_type = Instantiation, a_endDate = t + D\<rparr>
     # batch (t + D) D n"
proof -
  have "[1..<Suc (Suc n)] = 1 # map Suc [1..<Suc n]"
    by (simp add: upt_conv_Cons map_Suc_upt del: upt_Suc)
  then show ?thesis
    unfolding batch_def by (simp add: o_def algebra_simps del: upt_Suc)
qed

lemma batch_0: "batch t D 0 = []"
  by (simp add: batch_def)

lemma trainingAssignments_batch:
  "trainingAssignments n now d acc =
     acc @ batch (if acc = [] then now else a_endDate (last acc)) \<lfloor>d * 1000\<rfloor> n"
  by (induction n arbitrary: acc) (simp_all add: batch_0 batch_Suc elemAt_last addTime_def)

lemma length_batch [simp]: "length (batch t D n) = n"
  by (simp add: batch_def)

lemma nth_batch:
  "i < n \<Longrightarrow> batch t D n ! i =
     \<lparr>a_id = None, buildingId = None, a_quantity = 1, a_type = Instantiation,
      a_endDate = t + (int i + 1) * D\<rparr>"
  unfolding batch_def by (simp add: nth_map_upt del: upt_Suc)

lemma findIndex_update:
  "0 \<le> findIndex p xs \<Longrightarrow> p y \<Longrightarrow> findIndex p (xs[nat (findIndex p xs) := y]) = findIndex p xs"
  by (induction xs) (auto simp: Let_def nat_add_distrib split: if_splits)

lemma findIndex_append_new:
  "findIndex p xs < 0 \<Longrightarrow> p y \<Longrightarrow> findIndex p (xs @ [y]) = int (length xs)"
  by (induction xs) (auto simp: Let_def split: if_splits)

lemma unitOf_enlist:
  "unitOf (enlist nu g) (u_code nu) =
     \<lparr>u_code = u_code nu,
      u_quantity = u_quantity (unitOf g (u_code nu)) + u_quantity nu,
      assignments = assignments (unitOf g (u_code nu)) @ assignments nu\<rparr>"
proof (cases "findIndex (\<lambda>u. u_code u = u_code nu) (units g) < 0")
  case True
  then show ?thesis
    by (simp add: unitOf_def enlist_def Let_def findIndex_append_new)
next
  case False
  let ?i = "findIndex (\<lambda>u. u_code u = u_code nu) (units g)"
  from False have i: "0 \<le> ?i" by simp
  have lt: "nat ?i < length (units g)" using findIndex_range[of "\<lambda>u. u_code u = u_code nu" "units g"] i by simp
  have hit: "u_code (units g ! nat ?i) = u_code nu" using findIndex_hit[OF i] .
  show ?thesis
    using False lt hit
    by (simp add: unitOf_def enlist_def Let_def findIndex_update[OF i])
qed

lemma updateResources_frame:
  "updateResources now repo g = Inr g' \<Longrightarrow> units g' = units g \<and> buildings g' = buildings g \<and> g_id g' = g_id g"
  by (auto simp: updateResources_def split: sum.splits)

lemma unitOf_cong: "units g' = units g \<Longrightarrow> unitOf g' c = unitOf g c"
  by (simp add: unitOf_def Let_def)

lemma addUnit_run_ok:
  assumes "addUnit_run env now nowU code quantity g = (m, None)"
  shows "\<exists>unit. unitRepo env code = Some unit \<and>
     units m = units (enlist \<lparr>u_code = code, u_quantity = orOne quantity,
                           assignments = batch now \<lfloor>u_duration unit * 1000\<rfloor> (nat (orOne quantity))\<rparr> g)
     \<and> buildings m = buildings g \<and> g_id m = g_id g"
  using assms
  by (auto simp: addUnit_run_def Let_def trainingAssignments_batch enlist_def
      split: option.splits if_splits sum.splits dest!: updateResources_frame)


lemma sum_ones: "(\<And>a. a \<in> set xs \<Longrightarrow> f a = (1::int)) \<Longrightarrow> sum_list (map f (filter P xs)) = int (length (filter P xs))"
  by (induction xs) auto

lemma filter_split_count:
  "int (length (filter (\<lambda>a. a_endDate a > tau) xs)) + int (length (filter (\<lambda>a. a_endDate a \<le> tau) xs)) = int (length xs)"
  by (induction xs) auto

lemma idle_append_batch:
  "idle tau \<lparr>u_code = c, u_quantity = u_quantity u + int n, assignments = assignments u @ batch t D n\<rparr>
     = idle tau u + int (length (filter (\<lambda>a. a_endDate a \<le> tau) (batch t D n)))"
proof -
  have "sum_list (map a_quantity (filter (\<lambda>a. a_endDate a > tau) (batch t D n)))
        = int (length (filter (\<lambda>a. a_endDate a > tau) (batch t D n)))"
    by (rule sum_ones) (auto simp: batch_def)
  then show ?thesis
    using filter_split_count[of tau "batch t D n"]
    by (simp add: idle_def unavailableUnits_def)
qed

lemma batch_not_yet:
  assumes "0 \<le> D" and "tau < t + D"
  shows "filter (\<lambda>a. a_endDate a \<le> tau) (batch t D n) = []"
proof -
  have "tau < t + int i * D" if "1 \<le> i" for i :: nat
  proof -
    have "1 * D \<le> int i * D" using that assms(1) by (intro mult_right_mono) auto
    with assms(2) show ?thesis by simp
  qed
  then have "\<forall>a\<in>set (batch t D n). \<not> a_endDate a \<le> tau"
    by (auto simp: batch_def not_le)
  then show ?thesis by (simp add: filter_empty_conv)
qed

lemma last_batch: "0 < n \<Longrightarrow> a_endDate (last (batch t D n)) = t + int n * D"
  by (simp add: batch_def last_map del: upt_Suc)

lemma addUnitBody_id: "addUnitBody env now nowU code quantity g = Inr m \<Longrightarrow> g_id m = g_id g"
  by (auto simp: addUnitBody_def split: prod.splits option.splits dest: addUnit_run_ok)

text \<open>
  Claim C4. A successful \<^verbatim>\<open>addUnit\<close> call for \<open>N = quantity || 1 \<ge> 1\<close> units of a type
  with duration \<open>d\<close> appends exactly \<open>N\<close> assignments to the unit of that code (an empty
  cohort when the garrison had none): each has quantity 1 and type instantiation, the
  first ends \<^verbatim>\<open>addTime(now, d * 1000)\<close>, every other one \<^verbatim>\<open>addTime\<close> of its predecessor's
  end date, so that the last ends at \<open>now + N * D\<close> with \<open>D\<close> the whole milliseconds of
  \<open>d * 1000\<close>. The quantity of the unit grows by \<open>N\<close> at once. At every time \<open>tau\<close> the idle
  availability is the former one plus the number of new assignments that have ended by
  \<open>tau\<close>; before the first end date it is unchanged.
\<close>

theorem addUnit_training_batch:
  assumes "findById db gid = Inr g"
    and "addUnit env now nowU gid code quantity db = (Inr g', db')"
    and "unitRepo env code = Some unit"
    and "1 \<le> orOne quantity"
  shows
    "db' = save g' db
     \<and> assignments (unitOf g' code) =
         assignments (unitOf g code)
         @ batch now \<lfloor>u_duration unit * 1000\<rfloor> (nat (orOne quantity))
     \<and> length (batch now \<lfloor>u_duration unit * 1000\<rfloor> (nat (orOne quantity))) = nat (orOne quantity)
     \<and> (\<forall>i < nat (orOne quantity).
           a_quantity (batch now \<lfloor>u_duration unit * 1000\<rfloor> (nat (orOne quantity)) ! i) = 1
         \<and> a_type (batch now \<lfloor>u_duration unit * 1000\<rfloor> (nat (orOne quantity)) ! i) = Instantiation
         \<and> a_endDate (batch now \<lfloor>u_duration unit * 1000\<rfloor> (nat (orOne quantity)) ! i) =
             addTime (if i = 0 then now
                      else a_endDate (batch now \<lfloor>u_duration unit * 1000\<rfloor> (nat (orOne quantity)) ! (i - 1)))
                     (u_duration unit * 1000))
     \<and> a_endDate (last (batch now \<lfloor>u_duration unit * 1000\<rfloor> (nat (orOne quantity))))
         = now + orOne quantity * \<lfloor>u_duration unit * 1000\<rfloor>
     \<and> u_quantity (unitOf g' code) = u_quantity (unitOf g code) + orOne quantity
     \<and> (\<forall>tau. idle tau (unitOf g' code) =
           idle tau (unitOf g code)
           + int (length (filter (\<lambda>a. a_endDate a \<le> tau)
                    (batch now \<lfloor>u_duration unit * 1000\<rfloor> (nat (orOne quantity))))))
     \<and> (\<forall>tau. 0 \<le> \<lfloor>u_duration unit * 1000\<rfloor> \<and> tau < now + \<lfloor>u_duration unit * 1000\<rfloor>
           \<longrightarrow> idle tau (unitOf g' code) = idle tau (unitOf g code))"
proof -
  let ?N = "nat (orOne quantity)"
  let ?D = "\<lfloor>u_duration unit * 1000\<rfloor>"
  let ?nu = "\<lparr>u_code = code, u_quantity = orOne quantity, assignments = batch now ?D ?N\<rparr>"
  have "addUnitBody env now nowU code quantity g = Inr g' \<and> db' = save g' db"
    using assms(2) addUnitBody_id
    by (intro loadAndSave_result[where gid=gid, OF assms(1)]) (auto simp: addUnit_def)
  then have run: "addUnit_run env now nowU code quantity g = (g', None)"
    and db': "db' = save g' db"
    by (auto simp: addUnitBody_def split: prod.splits option.splits)
  from addUnit_run_ok[OF run] assms(3)
  have u: "units g' = units (enlist ?nu g)" by auto
  have uo: "unitOf g' code =
      \<lparr>u_code = code, u_quantity = u_quantity (unitOf g code) + int ?N,
       assignments = assignments (unitOf g code) @ batch now ?D ?N\<rparr>"
    using unitOf_cong[OF u, of code] unitOf_enlist[of ?nu g] assms(4) by simp
  have nth: "a_quantity (batch now ?D ?N ! i) = 1
         \<and> a_type (batch now ?D ?N ! i) = Instantiation
         \<and> a_endDate (batch now ?D ?N ! i) =
             addTime (if i = 0 then now else a_endDate (batch now ?D ?N ! (i - 1)))
                     (u_duration unit * 1000)" if "i < ?N" for i
  proof (cases i)
    case 0
    with that show ?thesis by (simp add: nth_batch addTime_def)
  next
    case (Suc j)
    with that show ?thesis by (simp add: nth_batch addTime_def algebra_simps)
  qed
  have idl: "idle tau (unitOf g' code) =
           idle tau (unitOf g code)
           + int (length (filter (\<lambda>a. a_endDate a \<le> tau) (batch now ?D ?N)))" for tau
    unfolding uo by (rule idle_append_batch)
  have "0 < ?N" using assms(4) by simp
  then have lst: "a_endDate (last (batch now ?D ?N)) = now + orOne quantity * ?D"
    using assms(4) by (simp add: last_batch)
  show ?thesis
    using db' uo nth idl lst assms(4)
    by (simp add: batch_not_yet)
qed

text \<open>The theorem at \<open>exFresh\<close>: three peasants, 10 s each, from time 1000.\<close>

lemmas addUnit_eval = addUnit_def addUnitBody_def addUnit_run_def enlist_def loadAndSave_def
  findById_def save_def updateResources_def orOne_def addTime_def elemAt_def Let_def
  exEnv_def exUnits_def exStatics_def exFresh_def exTrained_def batch_def

theorem addUnit_training_batch_witness:
  "findById [exFresh] 5 = Inr exFresh
   \<and> addUnit exEnv 1000 1000 5 ''peasant'' (Some 3) [exFresh] = (Inr exTrained, [exTrained])
   \<and> map_option u_duration (unitRepo exEnv ''peasant'') = Some 10
   \<and> 1 \<le> orOne (Some 3)
   \<and> map a_endDate (assignments (unitOf exTrained ''peasant'')) = [11000, 21000, 31000]
   \<and> a_endDate (last (batch 1000 10000 3)) = 1000 + 3 * 10000
   \<and> u_quantity (unitOf exTrained ''peasant'') = u_quantity (unitOf exFresh ''peasant'') + 3
   \<and> idle 5000 (unitOf exTrained ''peasant'') = idle 5000 (unitOf exFresh ''peasant'')
   \<and> idle 25000 (unitOf exTrained ''peasant'') = idle 25000 (unitOf exFresh ''peasant'') + 2"
proof -
  have a: "findById [exFresh] 5 = Inr exFresh"
    by (simp add: findById_def exFresh_def)
  have run: "addUnit exEnv 1000 1000 5 ''peasant'' (Some 3) [exFresh] = (Inr exTrained, [exTrained])"
    by (simp add: addUnit_eval numeral_3_eq_3)
  have u: "unitRepo exEnv ''peasant'' = Some (the (exUnits ''peasant''))"
    by (simp add: exEnv_def exUnits_def)
  have d: "\<lfloor>u_duration (the (exUnits ''peasant'')) * 1000\<rfloor> = 10000"
    by (simp add: exUnits_def)
  have q: "1 \<le> orOne (Some 3)" "nat (orOne (Some 3)) = 3" "orOne (Some 3) = 3"
    by (simp_all add: orOne_def)
  note T = addUnit_training_batch[OF a run u q(1), unfolded d q(2) q(3)]
  have f: "unitOf exFresh ''peasant'' = \<lparr>u_code = ''peasant'', u_quantity = 3, assignments = []\<rparr>"
    by (simp add: unitOf_def exFresh_def)
  have b: "map a_endDate (batch 1000 10000 3) = [11000, 21000, 31000]"
    by (simp add: batch_def numeral_3_eq_3)
  have c: "length (filter (\<lambda>a. a_endDate a \<le> 25000) (batch 1000 10000 3)) = 2"
    by (simp add: batch_def numeral_3_eq_3)
  from T have 1: "assignments (unitOf exTrained ''peasant'') = batch 1000 10000 3"
    by (simp add: f)
  from T have 2: "a_endDate (last (batch 1000 10000 3)) = 1000 + 3 * 10000" by simp
  from T have 3: "u_quantity (unitOf exTrained ''peasant'') = u_quantity (unitOf exFresh ''peasant'') + 3"
    by simp
  have "(0::int) \<le> 10000 \<and> (5000::int) < 1000 + 10000" by simp
  with T have 4: "idle 5000 (unitOf exTrained ''peasant'') = idle 5000 (unitOf exFresh ''peasant'')"
    by blast
  from T have 5: "idle 25000 (unitOf exTrained ''peasant'') = idle 25000 (unitOf exFresh ''peasant'') + 2"
    by (simp add: c)
  show ?thesis using a run u q 1 2 3 4 5 b by (simp add: exUnits_def)
qed


text \<open>
  The cohort that \<^verbatim>\<open>addUnit\<close> merges into the document holds training assignments only,
  so the accrual computed on the document with the cohort is the accrual of the loaded
  document.
\<close>

lemma find_append_miss: "\<forall>x\<in>set ys. \<not> P x \<Longrightarrow> find P (xs @ ys) = find P xs"
  by (induction xs) (auto simp: find_None_iff2[symmetric] find_None_iff)

lemma assignedWorkers_update:
  "i < length xs \<Longrightarrow> u_code y = u_code (xs ! i) \<Longrightarrow>
   find (harvestMatch b) (assignments y) = find (harvestMatch b) (assignments (xs ! i)) \<Longrightarrow>
   assignedWorkers (xs[i := y]) b = assignedWorkers xs b"
proof (induction xs arbitrary: i)
  case Nil
  then show ?case by simp
next
  case (Cons x xs)
  show ?case
  proof (cases i)
    case 0
    with Cons.prems show ?thesis by (simp add: assignedWorkers_def)
  next
    case (Suc j)
    with Cons.prems Cons.IH[of j] show ?thesis by (simp add: assignedWorkers_def)
  qed
qed

lemma assignedWorkers_append:
  "find (harvestMatch b) (assignments y) = None \<Longrightarrow>
   \<not> list_ex (\<lambda>u. u_code u = u_code y) xs \<Longrightarrow>
   assignedWorkers (xs @ [y]) b = assignedWorkers xs b"
  by (induction xs) (auto simp: assignedWorkers_def)

lemma assignedWorkers_enlist:
  assumes "\<forall>a\<in>set (assignments nu). a_type a \<noteq> Harvest"
  shows "assignedWorkers (units (enlist nu g)) b = assignedWorkers (units g) b"
proof -
  let ?i = "findIndex (\<lambda>u. u_code u = u_code nu) (units g)"
  have none: "\<forall>a\<in>set (assignments nu). \<not> harvestMatch b a"
    using assms by (simp add: harvestMatch_def)
  show ?thesis
  proof (cases "?i < 0")
    case True
    then have "\<not> list_ex (\<lambda>u. u_code u = u_code nu) (units g)"
      by (simp add: findIndex_neg_iff)
    moreover have "find (harvestMatch b) (assignments nu) = None"
      using none by (simp add: find_None_iff)
    ultimately show ?thesis using True
      by (simp add: enlist_def Let_def assignedWorkers_append)
  next
    case False
    then have i: "0 \<le> ?i" by simp
    have lt: "nat ?i < length (units g)"
      using findIndex_range[of "\<lambda>u. u_code u = u_code nu" "units g"] i by simp
    show ?thesis using False lt none
      by (simp add: enlist_def Let_def assignedWorkers_update find_append_miss)
  qed
qed

lemma updateBuilding_workers:
  "assignedWorkers us b = assignedWorkers us' b \<Longrightarrow>
   updateBuilding now repo us rs b = updateBuilding now repo us' rs b"
  by (simp add: updateBuilding_def cong: option.case_cong if_cong)

lemma updateLoop_workers:
  "(\<And>b. assignedWorkers us b = assignedWorkers us' b) \<Longrightarrow>
   updateLoop now repo us bs rs = updateLoop now repo us' bs rs"
  by (induction bs arbitrary: rs)
     (simp_all add: updateBuilding_workers[of us _ us'] split: sum.splits)

lemma enlist_frame: "buildings (enlist nu g) = buildings g \<and> resources (enlist nu g) = resources g
   \<and> g_id (enlist nu g) = g_id g"
  by (simp add: enlist_def Let_def)

lemma updateResources_enlist:
  assumes "\<forall>a\<in>set (assignments nu). a_type a \<noteq> Harvest"
    and "updateResources now repo g = Inr g2"
  shows "updateResources now repo (enlist nu g) = Inr ((enlist nu g)\<lparr>resources := resources g2\<rparr>)"
proof -
  have "updateLoop now repo (units (enlist nu g)) bs rs = updateLoop now repo (units g) bs rs" for bs rs
    by (rule updateLoop_workers) (rule assignedWorkers_enlist[OF assms(1)])
  then show ?thesis using assms(2)
    by (auto simp: updateResources_def enlist_frame split: sum.splits)
qed

lemma batch_types: "\<forall>a\<in>set (batch t D n). a_type a \<noteq> Harvest"
  by (auto simp: batch_def)

text \<open>
  Claim C6, as amended. When the garrison and the unit type are found and the resources of
  the loaded garrison, refreshed by \<^verbatim>\<open>updateResources\<close>, are below quantity times the unit
  cost in gold, wood or food, \<^verbatim>\<open>addUnit\<close> fails with status 412 and the collection is
  exactly what it was. The validation does not precede the in-memory mutation: when the
  requirements are fulfilled, the document in memory at the throw already carries the new
  cohort and the refreshed resources; it is never saved.
\<close>

theorem addUnit_insufficient:
  assumes "findById db gid = Inr g"
    and "unitRepo env code = Some unit"
    and "updateResources nowU (buildingRepo env) g = Inr g2"
    and "gold (resources g2) < ucost_gold (u_cost unit) * of_int (orOne quantity)
         \<or> wood (resources g2) < ucost_wood (u_cost unit) * of_int (orOne quantity)
         \<or> food (resources g2) < ucost_food (u_cost unit) * of_int (orOne quantity)"
  shows "addUnit env now nowU gid code quantity db = (Inl (ErrorHandler 412), db)
     \<and> ((case u_requiredEntities unit of
            None \<Rightarrow> True
          | Some rqs \<Rightarrow> \<not> list_ex (unfulfilledRequirement now (buildings g)) rqs) \<longrightarrow>
        addUnit_run env now nowU code quantity g =
          ((enlist \<lparr>u_code = code, u_quantity = orOne quantity,
                    assignments = batch now \<lfloor>u_duration unit * 1000\<rfloor> (nat (orOne quantity))\<rparr> g)
             \<lparr>resources := resources g2\<rparr>,
           Some (ErrorHandler 412)))"
proof -
  let ?nu = "\<lparr>u_code = code, u_quantity = orOne quantity,
              assignments = batch now \<lfloor>u_duration unit * 1000\<rfloor> (nat (orOne quantity))\<rparr>"
  have upd: "updateResources nowU (buildingRepo env) (enlist ?nu g)
             = Inr ((enlist ?nu g)\<lparr>resources := resources g2\<rparr>)"
    by (rule updateResources_enlist[OF _ assms(3)]) (simp add: batch_types)
  have run: "snd (addUnit_run env now nowU code quantity g) = Some (ErrorHandler 412)"
    using assms(2,4) upd
    by (auto simp: addUnit_run_def Let_def trainingAssignments_batch split: option.splits)
  have mem: "addUnit_run env now nowU code quantity g =
          ((enlist ?nu g)\<lparr>resources := resources g2\<rparr>, Some (ErrorHandler 412))"
    if "case u_requiredEntities unit of
            None \<Rightarrow> True
          | Some rqs \<Rightarrow> \<not> list_ex (unfulfilledRequirement now (buildings g)) rqs"
    using assms(2,4) upd that
    by (auto simp: addUnit_run_def Let_def trainingAssignments_batch split: option.splits)
  from run have "addUnitBody env now nowU code quantity g = Inl (ErrorHandler 412)"
    by (auto simp: addUnitBody_def split: prod.splits option.splits)
  then have "addUnit env now nowU gid code quantity db = (Inl (ErrorHandler 412), db)"
    by (simp add: addUnit_def loadAndSave_found[OF assms(1)])
  with mem show ?thesis by blast
qed

text \<open>The theorem at \<open>exFresh\<close>: two catapults cost 800 gold, the garrison has 625.\<close>

theorem addUnit_insufficient_witness:
  "findById [exFresh] 5 = Inr exFresh
   \<and> map_option u_cost (unitRepo exEnv ''catapult'')
       = Some \<lparr>ucost_gold = 400, ucost_wood = 150, ucost_food = 1\<rparr>
   \<and> updateResources 1000 (buildingRepo exEnv) exFresh = Inr exFresh
   \<and> gold (resources exFresh) < 400 * of_int (orOne (Some 2))
   \<and> addUnit exEnv 1000 1000 5 ''catapult'' (Some 2) [exFresh] = (Inl (ErrorHandler 412), [exFresh])"
proof -
  have a: "findById [exFresh] 5 = Inr exFresh"
    by (simp add: findById_def exFresh_def)
  have u: "unitRepo exEnv ''catapult'' = Some (the (exUnits ''catapult''))"
    by (simp add: exEnv_def exUnits_def)
  have c: "u_cost (the (exUnits ''catapult'')) = \<lparr>ucost_gold = 400, ucost_wood = 150, ucost_food = 1\<rparr>"
    by (simp add: exUnits_def)
  have r: "updateResources 1000 (buildingRepo exEnv) exFresh = Inr exFresh"
    by (simp add: updateResources_def exFresh_def)
  have i: "gold (resources exFresh) < 400 * of_int (orOne (Some 2))"
    by (simp add: exFresh_def orOne_def)
  have "addUnit exEnv 1000 1000 5 ''catapult'' (Some 2) [exFresh] = (Inl (ErrorHandler 412), [exFresh])"
    using addUnit_insufficient[OF a u r, of "Some 2" 1000] i c by simp
  then show ?thesis using a u c r i by simp
qed

text \<open>
  Claim C6 as stated fails in its last clause: at the same input the method throws 412 and
  leaves the collection alone, but the document in memory at the throw differs from the
  loaded one, its unit list having been assigned before the resources were checked.
\<close>

theorem addUnit_insufficient_counterexample:
  "findById [exFresh] 5 = Inr exFresh
   \<and> map_option u_cost (unitRepo exEnv ''catapult'')
       = Some \<lparr>ucost_gold = 400, ucost_wood = 150, ucost_food = 1\<rparr>
   \<and> updateResources 1000 (buildingRepo exEnv) exFresh = Inr exFresh
   \<and> gold (resources exFresh) < 400 * of_int (orOne (Some 2))
   \<and> addUnit exEnv 1000 1000 5 ''catapult'' (Some 2) [exFresh] = (Inl (ErrorHandler 412), [exFresh])
   \<and> addUnit_run exEnv 1000 1000 ''catapult'' (Some 2) exFresh
       = (exFresh\<lparr>units := units exFresh @ [exCatapults]\<rparr>, Some (ErrorHandler 412))
   \<and> exFresh\<lparr>units := units exFresh @ [exCatapults]\<rparr> \<noteq> exFresh"
  by (simp add: addUnit_eval exCatapults_def numeral_2_eq_2)


section \<open>\<^verbatim>\<open>extendBuilding\<close>: results\<close>

lemma extendBody_Inr:
  assumes "extendBody repo now newCid newAid bid wforce g = Inr g'"
    and "findBuilding g bid = Inr (garrBuilding, bIndex)"
    and "repo (b_code garrBuilding) = Some building"
  shows "minWorkforce building * 2 ^ (currentLevel Extension (constructions garrBuilding) + 1) \<le> wforce
     \<and> wforce \<le> minWorkforce building * 2 ^ (currentLevel Extension (constructions garrBuilding) + 1) * 2
     \<and> g_id g' = g_id g
     \<and> buildings g' =
         map (\<lambda>b. if b_code b = b_code garrBuilding
                  then b\<lparr>constructions := constructions b @
                     [\<lparr>c_id = newCid, beginDate = now,
                       c_endDate = addTime now
                         (Math_round (duration building
                              * (13 / 10) ^ (currentLevel Extension (constructions garrBuilding) + 1))
                          * power_int (97 / 100)
                              (wforce - minWorkforce building
                                  * 2 ^ (currentLevel Extension (constructions garrBuilding) + 1))
                          * 1000),
                       workforce = wforce,
                       improvement = Some \<lparr>imp_type = Extension,
                          imp_level = currentLevel Extension (constructions garrBuilding) + 1\<rparr>\<rparr>]\<rparr>
                  else b) (buildings g)"
  using assms
  by (auto simp: extendBody_def Let_def split: sum.splits option.splits if_splits prod.splits)

lemma extendBody_bounds:
  assumes "findBuilding g bid = Inr (garrBuilding, bIndex)"
    and "repo (b_code garrBuilding) = Some building"
    and "wforce < minWorkforce building * 2 ^ (currentLevel Extension (constructions garrBuilding) + 1)
       \<or> wforce > minWorkforce building * 2 ^ (currentLevel Extension (constructions garrBuilding) + 1) * 2"
  shows "\<exists>e. extendBody repo now newCid newAid bid wforce g = Inl e"
proof (cases "extendBody repo now newCid newAid bid wforce g")
  case (Inl e)
  then show ?thesis by blast
next
  case (Inr g')
  from extendBody_Inr[OF Inr assms(1,2)] assms(3) show ?thesis by auto
qed


lemma extendBody_id: "extendBody repo now newCid newAid bid wforce g = Inr m \<Longrightarrow> g_id m = g_id g"
  by (auto simp: extendBody_def Let_def split: sum.splits option.splits if_splits prod.splits)

text \<open>
  Claim C8. Let the next extension level be the current one plus 1, the level-scaled minimum
  \<open>minWorkforce * 2 ^ level\<close> and the level-scaled base duration
  \<open>round (duration * 1.3 ^ level)\<close>. A workforce below the scaled minimum or above twice
  the scaled minimum is rejected, and nothing is saved. Every accepted call has its
  workforce within these bounds and appends a construction that ends
  \<^verbatim>\<open>addTime(now, newDuration * 1000)\<close>, where \<open>newDuration\<close> is the scaled base duration
  times \<open>0.97 ^ (workforce - scaled minimum)\<close>.
\<close>

theorem extendBuilding_workforce_duration:
  assumes "findById db gid = Inr g"
    and "findBuilding g bid = Inr (garrBuilding, bIndex)"
    and "buildingRepo env (b_code garrBuilding) = Some building"
  shows
    "(wforce < minWorkforce building * 2 ^ (currentLevel Extension (constructions garrBuilding) + 1)
      \<or> wforce > minWorkforce building * 2 ^ (currentLevel Extension (constructions garrBuilding) + 1) * 2
      \<longrightarrow> (\<exists>e. extendBuilding env now newCid newAid gid bid wforce db = (Inl e, db)))
     \<and> (extendBuilding env now newCid newAid gid bid wforce db = (Inr g', db')
      \<longrightarrow> minWorkforce building * 2 ^ (currentLevel Extension (constructions garrBuilding) + 1) \<le> wforce
        \<and> wforce \<le> minWorkforce building * 2 ^ (currentLevel Extension (constructions garrBuilding) + 1) * 2
        \<and> constructions (buildings g' ! bIndex) =
            constructions garrBuilding @
              [\<lparr>c_id = newCid, beginDate = now,
                c_endDate = addTime now
                  (Math_round (duration building
                       * (13 / 10) ^ (currentLevel Extension (constructions garrBuilding) + 1))
                   * (97 / 100) ^ nat (wforce - minWorkforce building
                           * 2 ^ (currentLevel Extension (constructions garrBuilding) + 1))
                   * 1000),
                workforce = wforce,
                improvement = Some \<lparr>imp_type = Extension,
                   imp_level = currentLevel Extension (constructions garrBuilding) + 1\<rparr>\<rparr>])"
proof -
  let ?minW = "minWorkforce building * 2 ^ (currentLevel Extension (constructions garrBuilding) + 1)"
  let ?c = "\<lparr>c_id = newCid, beginDate = now,
                c_endDate = addTime now
                  (Math_round (duration building
                       * (13 / 10) ^ (currentLevel Extension (constructions garrBuilding) + 1))
                   * (97 / 100) ^ nat (wforce - ?minW)
                   * 1000),
                workforce = wforce,
                improvement = Some \<lparr>imp_type = Extension,
                   imp_level = currentLevel Extension (constructions garrBuilding) + 1\<rparr>\<rparr>"
  have rejected: "\<exists>e. extendBuilding env now newCid newAid gid bid wforce db = (Inl e, db)"
    if "wforce < ?minW \<or> wforce > ?minW * 2"
  proof -
    from extendBody_bounds[where repo="buildingRepo env", OF assms(2,3) that]
    obtain e where "extendBody (buildingRepo env) now newCid newAid bid wforce g = Inl e"
      by blast
    then show ?thesis
      by (simp add: extendBuilding_def loadAndSave_found[OF assms(1)])
  qed
  have accepted: "?minW \<le> wforce \<and> wforce \<le> ?minW * 2
        \<and> constructions (buildings g' ! bIndex) = constructions garrBuilding @ [?c]"
    if run: "extendBuilding env now newCid newAid gid bid wforce db = (Inr g', db')"
  proof -
    have body: "extendBody (buildingRepo env) now newCid newAid bid wforce g = Inr g'
                \<and> db' = save g' db"
      using run extendBody_id
      by (intro loadAndSave_result[where gid=gid, OF assms(1)]) (auto simp: extendBuilding_def)
    note R0 = extendBody_Inr[where repo="buildingRepo env", OF body[THEN conjunct1] assms(2,3)]
    note fb = findBuilding_Inr[OF assms(2)]
    have pw: "power_int (97 / 100 :: rat) (wforce - ?minW) = (97 / 100) ^ nat (wforce - ?minW)"
      using R0 by (simp add: power_int_def)
    note R = R0[unfolded pw]
    show ?thesis using R fb by simp
  qed
  from rejected accepted show ?thesis by blast
qed

lemmas extend_eval = extendBuilding_def extendBody_def loadAndSave_def findById_def save_def
  findBuilding_def findUnit_def unavailable_def currentLevel_def List.map_filter_def
  unavailableUnits_def Math_round_def Math_floor_def addTime_def isGift_def power_int_def
  Let_def exEnv_def exStatics_def exYard_def built_def

text \<open>
  The theorem at \<open>exYard\<close>: level 1, scaled minimum 4, scaled duration 78 s; 3 and 9
  workers are rejected, 6 workers give 78 * 0.97 ^ 2 = 73.3902 s.
\<close>

theorem extendBuilding_workforce_duration_witness:
  "findById [exYard] 6 = Inr exYard
   \<and> findBuilding exYard 1 = Inr (built 1 ''goldmine'', 0)
   \<and> map_option minWorkforce (buildingRepo exEnv (b_code (built 1 ''goldmine''))) = Some 2
   \<and> map_option duration (buildingRepo exEnv (b_code (built 1 ''goldmine''))) = Some 60
   \<and> currentLevel Extension (constructions (built 1 ''goldmine'')) = 0
   \<and> (\<exists>e. extendBuilding exEnv 1000 7 8 6 1 3 [exYard] = (Inl e, [exYard]))
   \<and> (\<exists>e. extendBuilding exEnv 1000 7 8 6 1 9 [exYard] = (Inl e, [exYard]))
   \<and> (\<exists>g'. extendBuilding exEnv 1000 7 8 6 1 6 [exYard] = (Inr g', [g'])
         \<and> constructions (buildings g' ! 0) =
             constructions (built 1 ''goldmine'') @
               [\<lparr>c_id = 7, beginDate = 1000, c_endDate = 1000 + 73390, workforce = 6,
                 improvement = Some \<lparr>imp_type = Extension, imp_level = 1\<rparr>\<rparr>])
   \<and> \<lfloor>Math_round (60 * (13 / 10) ^ 1) * (97 / 100) ^ nat (6 - 2 * 2 ^ 1) * 1000\<rfloor> = 73390"
proof -
  have a: "findById [exYard] 6 = Inr exYard"
    and b: "findBuilding exYard 1 = Inr (built 1 ''goldmine'', 0)"
    and c: "buildingRepo exEnv (b_code (built 1 ''goldmine'')) = Some (the (exStatics ''goldmine''))"
    and l: "currentLevel Extension (constructions (built 1 ''goldmine'')) = 0"
    by (simp_all add: extend_eval)
  have m: "minWorkforce (the (exStatics ''goldmine'')) = 2"
    "duration (the (exStatics ''goldmine'')) = 60"
    by (simp_all add: exStatics_def)
  have d: "\<lfloor>Math_round (60 * (13 / 10) ^ 1) * (97 / 100) ^ nat (6 - 2 * 2 ^ 1) * 1000\<rfloor> = 73390"
    by code_simp
  note T = extendBuilding_workforce_duration[where env=exEnv and now=1000 and newCid=7
      and newAid=8, OF a b c, unfolded l m]
  have 1: "\<exists>e. extendBuilding exEnv 1000 7 8 6 1 3 [exYard] = (Inl e, [exYard])"
    using T[of 3] by simp
  have 2: "\<exists>e. extendBuilding exEnv 1000 7 8 6 1 9 [exYard] = (Inl e, [exYard])"
    using T[of 9] by simp
  obtain g' where run: "extendBuilding exEnv 1000 7 8 6 1 6 [exYard] = (Inr g', [g'])"
    by (simp add: extend_eval)
  have 3: "constructions (buildings g' ! 0) =
             constructions (built 1 ''goldmine'') @
               [\<lparr>c_id = 7, beginDate = 1000, c_endDate = 1000 + 73390, workforce = 6,
                 improvement = Some \<lparr>imp_type = Extension, imp_level = 1\<rparr>\<rparr>]"
    using T[of 6 g' "[g']"] run d by (simp add: addTime_def)
  show ?thesis using a b c l m 1 2 3 run d by (simp add: exI[of _ g'])
qed

section \<open>\<^verbatim>\<open>unassignUnit\<close>: results\<close>











lemmas unassign_eval = unassignUnit_def unassignBody_def refreshed_def unassigned_def
  activeWorker_def loadAndSave_def findById_def save_def findBuilding_def findUnit_def
  harvestMatch_def orOne_def splice1_def Let_def exEnv_def exStatics_def exUnits_def
  exCrew_def built_def harvesting_def unitOf_def


lemma exCrew_knight:
  "unassignUnit exEnv 0 7 1 ''knight'' (Some 1) [exCrew] = (Inr exKnightsHome, [exKnightsHome])"
  by (simp add: unassign_eval exKnightsHome_def)




section \<open>Requests on a building under construction: results\<close>

lemma extendBody_busy:
  assumes "findBuilding g bid = Inr (garrBuilding, bIndex)" and "unavailable now garrBuilding"
  shows "extendBody repo now newCid newAid bid wforce g =
           Inl (if repo (b_code garrBuilding) = None then ErrorHandler 404 else ErrorHandler 412)"
  using assms by (simp add: extendBody_def split: option.splits)

lemma upgradeBody_busy:
  assumes "findBuilding g bid = Inr (building, bIndex)" and "unavailable now building"
  shows "upgradeBody env now nowU newCid newAid bid wforce g = Inl (ErrorHandler 409)"
  using assms by (simp add: upgradeBody_def checkBuildingAvailability_def)

lemma assignBody_busy:
  assumes "findBuilding g bid = Inr (garrBuilding, bIndex)" and "unavailable now garrBuilding"
  shows "\<exists>e. assignBody env now nowU bid code quantity g = Inl e
           \<and> e \<in> {ErrorHandler 400, ErrorHandler 404, ErrorHandler 412}
           \<and> ((\<exists>building. buildingRepo env (b_code garrBuilding) = Some building \<and> harvest building \<noteq> None)
                \<and> unitRepo env code \<noteq> None \<and> isl (findUnit g code) = False
                \<longrightarrow> e = ErrorHandler 412)"
  using assms by (auto simp: assignBody_def findUnit_def Let_def split: option.splits sum.splits)

text \<open>
  \<^verbatim>\<open>upgradeBuilding\<close> leaves the check to \<^verbatim>\<open>_gH.checkBuildingAvailability\<close>; with the
  helper as modelled above, the request on a busy building is a \<open>Conflict\<close>.
\<close>

lemma upgradeBuilding_busy:
  assumes "findById db gid = Inr g"
    and "findBuilding g bid = Inr (b, i)"
    and "unavailable now b"
  shows "upgradeBuilding env now nowU newCid newAid gid bid wforce db = (Inl (ErrorHandler 409), db)"
  by (simp add: upgradeBuilding_def loadAndSave_def assms(1) upgradeBody_busy[OF assms(2,3)])

text \<open>
  Claim C3, as the code has it, for the two methods that check the building in-line. When
  the targeted building has a construction whose end date is strictly after \<open>now\<close>,
  \<^verbatim>\<open>extendBuilding\<close> and \<^verbatim>\<open>assignUnit\<close> both throw and leave the collection as it was.
  \<^verbatim>\<open>extendBuilding\<close> throws \<open>PreconditionFailed\<close> (412) as soon as the catalog knows the
  building. \<^verbatim>\<open>assignUnit\<close> throws 400, 404 or 412, and 412 when the catalog building
  harvests and the unit is known to the catalog and to the garrison: the checks on the
  harvest and on the unit come before the check on the constructions.
\<close>

theorem busy_building_rejects:
  assumes "findById db gid = Inr g"
    and "findBuilding g bid = Inr (b, i)"
    and "unavailable now b"
  shows "extendBuilding env now newCid newAid gid bid wforce db =
           (Inl (if buildingRepo env (b_code b) = None then ErrorHandler 404 else ErrorHandler 412), db)
     \<and> (\<exists>e. assignUnit env now nowU gid bid code quantity db = (Inl e, db)
           \<and> e \<in> {ErrorHandler 400, ErrorHandler 404, ErrorHandler 412}
           \<and> ((\<exists>building. buildingRepo env (b_code b) = Some building \<and> harvest building \<noteq> None)
                \<and> unitRepo env code \<noteq> None \<and> isl (findUnit g code) = False
                \<longrightarrow> e = ErrorHandler 412))"
proof -
  have ex: "extendBuilding env now newCid newAid gid bid wforce db =
           (Inl (if buildingRepo env (b_code b) = None then ErrorHandler 404 else ErrorHandler 412), db)"
    by (simp add: extendBuilding_def loadAndSave_def assms(1) extendBody_busy[OF assms(2,3)])
  from assignBody_busy[OF assms(2,3), of env nowU code quantity]
  obtain e where e: "assignBody env now nowU bid code quantity g = Inl e"
     and k: "e \<in> {ErrorHandler 400, ErrorHandler 404, ErrorHandler 412}"
     and p: "(\<exists>building. buildingRepo env (b_code b) = Some building \<and> harvest building \<noteq> None)
                \<and> unitRepo env code \<noteq> None \<and> isl (findUnit g code) = False
                \<longrightarrow> e = ErrorHandler 412"
    by blast
  have "assignUnit env now nowU gid bid code quantity db = (Inl e, db)"
    by (simp add: assignUnit_def loadAndSave_def assms(1) e)
  with k p have "\<exists>e. assignUnit env now nowU gid bid code quantity db = (Inl e, db)
           \<and> e \<in> {ErrorHandler 400, ErrorHandler 404, ErrorHandler 412}
           \<and> ((\<exists>building. buildingRepo env (b_code b) = Some building \<and> harvest building \<noteq> None)
                \<and> unitRepo env code \<noteq> None \<and> isl (findUnit g code) = False
                \<longrightarrow> e = ErrorHandler 412)"
    by blast
  with ex show ?thesis by blast
qed

lemmas busy_eval = findById_def findBuilding_def findUnit_def unavailable_def Let_def
  exEnv_def exStatics_def exUnits_def

text \<open>
  The theorem at a concrete input: the goldmine of \<open>exUpgrading\<close>, whose upgrade ends at
  900000, at time 1000.
\<close>

theorem busy_building_rejects_witness:
  "findById [exUpgrading] 4 = Inr exUpgrading
   \<and> findBuilding exUpgrading 1 = Inr (hd (buildings exUpgrading), 0)
   \<and> unavailable 1000 (hd (buildings exUpgrading))
   \<and> extendBuilding exEnv 1000 202 302 4 1 4 [exUpgrading] = (Inl (ErrorHandler 412), [exUpgrading])
   \<and> assignUnit exEnv 1000 1000 4 1 ''peasant'' (Some 1) [exUpgrading] = (Inl (ErrorHandler 412), [exUpgrading])"
proof -
  have a: "findById [exUpgrading] 4 = Inr exUpgrading"
    by (simp add: findById_def exUpgrading_def)
  have b: "findBuilding exUpgrading 1 = Inr (hd (buildings exUpgrading), 0)"
    by (simp add: findBuilding_def exUpgrading_def Let_def)
  have c: "unavailable 1000 (hd (buildings exUpgrading))"
    by (simp add: unavailable_def exUpgrading_def)
  have d: "buildingRepo exEnv (b_code (hd (buildings exUpgrading))) = Some (the (exStatics ''goldmine''))"
    by (simp add: exEnv_def exStatics_def exUpgrading_def)
  have h: "harvest (the (exStatics ''goldmine'')) \<noteq> None"
    by (simp add: exStatics_def)
  have u: "unitRepo exEnv ''peasant'' \<noteq> None"
    by (simp add: exEnv_def exUnits_def)
  have f: "isl (findUnit exUpgrading ''peasant'') = False"
    by (simp add: findUnit_def exUpgrading_def Let_def)
  note t = busy_building_rejects[OF a b c, of exEnv 202 302 4 1000 "''peasant''" "Some 1"]
  have "assignUnit exEnv 1000 1000 4 1 ''peasant'' (Some 1) [exUpgrading] = (Inl (ErrorHandler 412), [exUpgrading])"
    using t d h u f by auto
  moreover have "extendBuilding exEnv 1000 202 302 4 1 4 [exUpgrading] = (Inl (ErrorHandler 412), [exUpgrading])"
    using t d by simp
  ultimately show ?thesis using a b c by simp
qed

text \<open>
  Claim C3 as stated fails for \<^verbatim>\<open>assignUnit\<close>: on the barracks under construction the
  request is rejected with 400, neither \<open>Conflict\<close> nor \<open>PreconditionFailed\<close>, because
  the barracks does not harvest.
\<close>

theorem busy_building_rejects_counterexample:
  "findById [exDrill] 8 = Inr exDrill
   \<and> findBuilding exDrill 3 = Inr (hd (buildings exDrill), 0)
   \<and> unavailable 1000 (hd (buildings exDrill))
   \<and> assignUnit exEnv 1000 1000 8 3 ''peasant'' (Some 1) [exDrill] = (Inl (ErrorHandler 400), [exDrill])"
  by (simp add: busy_eval assignUnit_def assignBody_def loadAndSave_def exDrill_def)

section \<open>Non-negative resources: results\<close>








lemma nonneg_setStamp [simp]: "nonneg (setStamp c now rs) = nonneg rs"
  by (simp add: setStamp_def nonneg_def)

lemma stamps_setResource [simp]:
  "goldLastUpdate (setResource r v rs) = goldLastUpdate rs"
  "woodLastUpdate (setResource r v rs) = woodLastUpdate rs"
  by (cases r; simp)+

















lemma nonneg_cancelHarvest [simp]: "nonneg (cancelHarvest hv c bs rs) = nonneg rs"
  by (simp add: nonneg_def)























end
